theory Spec2Isabelle
  imports Complex_Main
begin

section \<open>Python built-ins used by the tourism system\<close>

text \<open>
  A Python \<open>str\<close> is modelled as a \<open>string\<close> whose characters are the code points
  U+0000 .. U+00FF; text outside that range is not modelled. The degree sign of the
  weather unit is the single character \<open>0xB0\<close>.
\<close>

definition is_space :: "char \<Rightarrow> bool" where
  \<comment> \<open>\<open>str.isspace\<close> on one code point: TAB..CR, FS..US, SPACE, NEL, NBSP.\<close>
  "is_space c = (let n = (of_char c :: nat) in
     (9 \<le> n \<and> n \<le> 13) \<or> (28 \<le> n \<and> n \<le> 32) \<or> n = 133 \<or> n = 160)"

fun lower_char :: "char \<Rightarrow> char" where
  \<comment> \<open>\<open>A\<close>..\<open>Z\<close> and \<open>0xC0\<close>..\<open>0xDE\<close> (without \<open>0xD7\<close>) move up by 32, which
      sets the bit of weight 32 (it is clear in both ranges).\<close>
  "lower_char (Char b0 b1 b2 b3 b4 b5 b6 b7) =
     (let n = (of_char (Char b0 b1 b2 b3 b4 b5 b6 b7) :: nat) in
      if (65 \<le> n \<and> n \<le> 90) \<or> (192 \<le> n \<and> n \<le> 222 \<and> n \<noteq> 215)
      then Char b0 b1 b2 b3 b4 True b6 b7 else Char b0 b1 b2 b3 b4 b5 b6 b7)"

fun upper_char :: "char \<Rightarrow> char" where
  \<comment> \<open>\<open>a\<close>..\<open>z\<close> and \<open>0xE0\<close>..\<open>0xFE\<close> (without \<open>0xF7\<close>) move down by 32. The
      upper-case forms of \<open>0xB5\<close>, \<open>0xDF\<close> and \<open>0xFF\<close> lie outside the modelled range;
      these three characters are left as they are.\<close>
  "upper_char (Char b0 b1 b2 b3 b4 b5 b6 b7) =
     (let n = (of_char (Char b0 b1 b2 b3 b4 b5 b6 b7) :: nat) in
      if (97 \<le> n \<and> n \<le> 122) \<or> (224 \<le> n \<and> n \<le> 254 \<and> n \<noteq> 247)
      then Char b0 b1 b2 b3 b4 False b6 b7 else Char b0 b1 b2 b3 b4 b5 b6 b7)"

definition lower :: "string \<Rightarrow> string" where
  "lower s = map lower_char s"

definition upper :: "string \<Rightarrow> string" where
  "upper s = map upper_char s"

definition strip :: "string \<Rightarrow> string" where
  "strip s = rev (dropWhile is_space (rev (dropWhile is_space s)))"

fun starts_with :: "string \<Rightarrow> string \<Rightarrow> bool" where
  \<comment> \<open>\<open>starts_with w s\<close>: \<open>s.startswith(w)\<close>\<close>
  "starts_with [] s = True"
| "starts_with (a # w) [] = False"
| "starts_with (a # w) (b # s) = (a = b \<and> starts_with w s)"

fun str_in :: "string \<Rightarrow> string \<Rightarrow> bool" where
  \<comment> \<open>\<open>str_in w s\<close>: the Python test \<open>w in s\<close> on strings\<close>
  "str_in w [] = (w = [])"
| "str_in w (b # s) = (starts_with w (b # s) \<or> str_in w s)"

fun split_ws :: "string \<Rightarrow> string \<Rightarrow> string list" where
  \<comment> \<open>\<open>split_ws [] s\<close>: \<open>s.split()\<close>; the first argument is the word being read,
      reversed.\<close>
  "split_ws acc [] = (if acc = [] then [] else [rev acc])"
| "split_ws acc (c # s) =
     (if is_space c then (if acc = [] then split_ws [] s else rev acc # split_ws [] s)
      else split_ws (c # acc) s)"

definition split :: "string \<Rightarrow> string list" where
  "split s = split_ws [] s"

fun join :: "string \<Rightarrow> string list \<Rightarrow> string" where
  \<comment> \<open>\<open>join sep xs\<close>: \<open>sep.join(xs)\<close>\<close>
  "join sep [] = []"
| "join sep [x] = x"
| "join sep (x # y # xs) = x @ sep @ join sep (y # xs)"

definition newline :: char where
  "newline = CHR 0x0A"

definition after_first_line :: "string \<Rightarrow> string" where
  \<comment> \<open>\<open>s.split("\n", 1)[1]\<close>, used only where \<open>"\n" in s\<close> holds\<close>
  "after_first_line s = drop (Suc (length (takeWhile (\<lambda>c. c \<noteq> newline) s))) s"

datatype pyval = PyNone | PyInt int | PyFloat string

definition digit_char :: "nat \<Rightarrow> char" where
  "digit_char d = ''0123456789'' ! d"

function str_nat :: "nat \<Rightarrow> string" where
  "str_nat n = (if n < 10 then [digit_char n]
                else str_nat (n div 10) @ [digit_char (n mod 10)])"
  by pat_completeness auto
termination
  by (relation "measure (\<lambda>n. n)") auto

declare str_nat.simps [simp del]

definition str_int :: "int \<Rightarrow> string" where
  "str_int i = (if i < 0 then CHR ''-'' # str_nat (nat (- i)) else str_nat (nat i))"

fun py_str :: "pyval \<Rightarrow> string" where
  \<comment> \<open>what an f-string writes for the value; a float is carried as the text
      \<open>str()\<close> gives for it\<close>
  "py_str PyNone = ''None''"
| "py_str (PyInt i) = str_int i"
| "py_str (PyFloat t) = t"

definition truthy :: "string option \<Rightarrow> bool" where
  \<comment> \<open>Python truth value of an \<open>Optional[str]\<close>\<close>
  "truthy v = (case v of None \<Rightarrow> False | Some s \<Rightarrow> s \<noteq> [])"

definition py_or :: "string option \<Rightarrow> string option \<Rightarrow> string option" where
  \<comment> \<open>\<open>a or b\<close>\<close>
  "py_or a b = (if truthy a then a else b)"

definition slice_to :: "int \<Rightarrow> 'a list \<Rightarrow> 'a list" where
  \<comment> \<open>\<open>xs[:k]\<close>; a negative \<open>k\<close> counts from the end\<close>
  "slice_to k xs = (if 0 \<le> k then take (nat k) xs else take (length xs - nat (- k)) xs)"


section \<open>Providers and their raw answers\<close>

text \<open>
  The HTTP services are parameters of the model. Each is a function of the request;
  \<open>None\<close> stands for a request that raised (network error, HTTP error status, a body
  that is not JSON). Every request made is recorded as an event, in the order the code
  makes it.
\<close>

record geo_raw =
  \<comment> \<open>first element of Nominatim's answer; a field is \<open>None\<close> when its key is absent\<close>
  raw_name :: "string option"
  raw_display_name :: "string option"
  raw_type :: "string option"
  raw_lat :: "rat option"
  raw_lon :: "rat option"
  raw_country :: "string option"
  raw_state :: "string option"
  raw_city :: "string option"
  raw_importance :: "rat option"
  raw_osm_type :: "string option"

record meteo_raw =
  \<comment> \<open>\<open>current\<close>: the values of \<open>temperature_2m\<close> and \<open>precipitation_probability\<close>
      (\<open>PyNone\<close> for an absent key); \<open>current_units\<close>: \<open>None\<close> when that object is
      absent, \<open>Some None\<close> when it has no \<open>temperature_2m\<close>\<close>
  current :: "(pyval \<times> pyval) option"
  current_units :: "string option option"

record osm_element =
  \<comment> \<open>\<open>tags\<close> as the parsed dictionary, \<open>None\<close> when the element has none\<close>
  tags :: "(string \<times> string) list option"

record env =
  nominatim :: "string \<Rightarrow> bool \<Rightarrow> geo_raw list option"
    \<comment> \<open>search for a name; the flag is \<open>addressdetails\<close>\<close>
  open_meteo :: "rat \<Rightarrow> rat \<Rightarrow> meteo_raw option"
  overpass_api :: "rat \<Rightarrow> rat \<Rightarrow> osm_element list option"
  chat_extract :: "string \<Rightarrow> string option"
    \<comment> \<open>content of the completion that extracts a place name from the user's text\<close>
  chat_unknown_place :: "string \<Rightarrow> string option"
    \<comment> \<open>content of the completion that words the reply for an unknown place\<close>

datatype event =
    Geocode string bool
  | WeatherCall rat rat
  | PlacesCall rat rat
  | ChatCall string

fun is_facet_call :: "event \<Rightarrow> bool" where
  "is_facet_call (WeatherCall la lo) = True"
| "is_facet_call (PlacesCall la lo) = True"
| "is_facet_call e = False"

section \<open>api\_clients.py\<close>

datatype confidence = High | Medium | Low

record place_details =
  pd_name :: string
  pd_display_name :: string
  pd_type :: string
  pd_lat :: rat
  pd_lon :: rat
  pd_country :: string
  pd_state :: string
  pd_city :: string
  pd_importance :: rat
  pd_osm_type :: string
  pd_match_confidence :: confidence

record weather_data =
  temperature :: pyval
  precipitation_probability :: pyval
  unit :: string

record attraction =
  a_name :: string
  a_type :: string

definition get_or :: "'a option \<Rightarrow> 'a \<Rightarrow> 'a" where
  \<comment> \<open>\<open>d.get(key, default)\<close> for a key whose value, when present, is \<open>v\<close>\<close>
  "get_or v d = (case v of None \<Rightarrow> d | Some x \<Rightarrow> x)"

definition get_coordinates :: "env \<Rightarrow> string \<Rightarrow> (rat \<times> rat) option \<times> event list" where
  "get_coordinates e place_name =
     ((case nominatim e place_name False of
         Some (r # rs) \<Rightarrow>
           (case (raw_lat r, raw_lon r) of
              (Some la, Some lo) \<Rightarrow> Some (la, lo)
            | _ \<Rightarrow> None)
       | _ \<Rightarrow> None),
      [Geocode place_name False])"

definition match_confidence :: "string \<Rightarrow> string \<Rightarrow> confidence" where
  \<comment> \<open>\<open>get_place_details\<close>, lines 97--109: first argument \<open>place_details["name"]\<close>,
      second the name searched for\<close>
  "match_confidence name place_name =
     (let found_name = lower name;
          search_term = strip (lower place_name)
      in if found_name = search_term \<or> str_in search_term found_name then High
         else if list_ex (\<lambda>word. str_in word found_name) (split search_term) then Medium
         else Low)"

definition get_place_details :: "env \<Rightarrow> string \<Rightarrow> place_details option \<times> event list" where
  "get_place_details e place_name =
     ((case nominatim e place_name True of
         Some (result # rs) \<Rightarrow>
           Some \<lparr> pd_name = get_or (raw_name result) place_name,
                  pd_display_name = get_or (raw_display_name result) place_name,
                  pd_type = get_or (raw_type result) ''unknown'',
                  pd_lat = get_or (raw_lat result) 0,
                  pd_lon = get_or (raw_lon result) 0,
                  pd_country = get_or (raw_country result) ''Unknown'',
                  pd_state = get_or (raw_state result) [],
                  pd_city = get_or (raw_city result) [],
                  pd_importance = get_or (raw_importance result) 0,
                  pd_osm_type = get_or (raw_osm_type result) [],
                  pd_match_confidence =
                    match_confidence (get_or (raw_name result) place_name) place_name \<rparr>
       | _ \<Rightarrow> None),
      [Geocode place_name True])"

definition unknown_place_msg :: string where
  "unknown_place_msg = ''I don't know this place exists.''"

definition verify_place_exists ::
  "env \<Rightarrow> string \<Rightarrow> bool \<Rightarrow> (bool \<times> place_details option \<times> string) \<times> event list" where
  "verify_place_exists e place_name strict =
     (case get_place_details e place_name of
        (None, t) \<Rightarrow> ((False, None, unknown_place_msg), t)
      | (Some d, t) \<Rightarrow>
          (let importance = pd_importance d;
               place_type = lower (pd_type d)
           in if strict then
                (if importance < 3 / 10 \<and> place_type \<in> set [''hamlet'', ''village'', ''locality'']
                 then ((False, Some d, unknown_place_msg), t)
                 else if pd_match_confidence d = Low
                 then ((False, Some d, unknown_place_msg), t)
                 else ((True, Some d, ''Found '' @ pd_display_name d), t))
              else ((True, Some d, ''Found '' @ pd_display_name d), t)))"

definition default_unit :: string where
  \<comment> \<open>the three characters \<open>0xC2 0xB0 C\<close> the client has as default\<close>
  "default_unit = [CHR 0xC2, CHR 0xB0, CHR ''C'']"

definition get_weather :: "env \<Rightarrow> rat \<Rightarrow> rat \<Rightarrow> weather_data option \<times> event list" where
  "get_weather e latitude longitude =
     ((case open_meteo e latitude longitude of
         None \<Rightarrow> None
       | Some data \<Rightarrow>
           (case current data of
              None \<Rightarrow> None
            | Some (t, p) \<Rightarrow>
                (case current_units data of
                   None \<Rightarrow> None
                 | Some u \<Rightarrow>
                     Some \<lparr> temperature = t, precipitation_probability = p,
                            unit = get_or u default_unit \<rparr>))),
      [WeatherCall latitude longitude])"

fun collect_places ::
  "int \<Rightarrow> osm_element list \<Rightarrow> attraction list \<Rightarrow> string set \<Rightarrow> attraction list" where
  \<comment> \<open>the \<open>for element in ...\<close> loop of \<open>get_tourist_attractions\<close>, with its
      \<open>places\<close> and \<open>seen_names\<close>\<close>
  "collect_places limit [] places seen_names = places"
| "collect_places limit (element # rest) places seen_names =
     (case tags element of
        None \<Rightarrow> collect_places limit rest places seen_names
      | Some tg \<Rightarrow>
          if tg = [] then collect_places limit rest places seen_names
          else if map_of tg ''tourism'' = None then collect_places limit rest places seen_names
          else
            (case py_or (py_or (map_of tg ''name'') (map_of tg ''name:en''))
                        (map_of tg ''name:en-GB'') of
               None \<Rightarrow> collect_places limit rest places seen_names
             | Some name \<Rightarrow>
                 if name \<noteq> [] \<and> name \<notin> seen_names then
                   (let places' = places @ [\<lparr> a_name = name,
                                               a_type = get_or (map_of tg ''tourism'') ''attraction'' \<rparr>]
                    in if int (length places') \<ge> limit then places'
                       else collect_places limit rest places' (insert name seen_names))
                 else collect_places limit rest places seen_names))"

definition get_tourist_attractions ::
  "env \<Rightarrow> rat \<Rightarrow> rat \<Rightarrow> int \<Rightarrow> attraction list \<times> event list" where
  "get_tourist_attractions e latitude longitude limit =
     ((case overpass_api e latitude longitude of
         None \<Rightarrow> []
       | Some elements \<Rightarrow> slice_to limit (collect_places limit elements [] {})),
      [PlacesCall latitude longitude])"

section \<open>agents.py and offline\_main.py\<close>

text \<open>
  \<open>WeatherAgent.get_weather_info\<close> and \<open>TourismSystemOffline.get_weather_info\<close> have
  the same body, and so have the two \<open>get_places_info\<close>; one definition embeds each
  pair. A \<open>weather_data\<close> always has its three keys, so the defaults of the
  \<open>weather_data.get\<close> calls are never taken.
\<close>

definition weather_sentence :: "string \<Rightarrow> weather_data \<Rightarrow> string" where
  "weather_sentence place_name wd =
     ''In '' @ place_name @ '' it's currently '' @ py_str (temperature wd) @ unit wd
       @ '' with a chance of '' @ py_str (precipitation_probability wd) @ ''% to rain.''"

definition get_weather_info :: "env \<Rightarrow> string \<Rightarrow> string option \<times> event list" where
  "get_weather_info e place_name =
     (case get_coordinates e place_name of
        (None, t) \<Rightarrow> (None, t)
      | (Some (lat, lon), t) \<Rightarrow>
          (case get_weather e lat lon of
             (None, t') \<Rightarrow> (None, t @ t')
           | (Some wd, t') \<Rightarrow> (Some (weather_sentence place_name wd), t @ t')))"

definition places_lead_in :: "string \<Rightarrow> string" where
  "places_lead_in place_name =
     ''In '' @ place_name @ '' these are the places you can go, - - - - -'' @ [newline]"

definition no_attractions :: string where
  "no_attractions = ''(No tourist attractions found in the database)''"

definition get_places_info :: "env \<Rightarrow> string \<Rightarrow> int \<Rightarrow> string option \<times> event list" where
  "get_places_info e place_name limit =
     (case get_coordinates e place_name of
        (None, t) \<Rightarrow> (None, t)
      | (Some (lat, lon), t) \<Rightarrow>
          (case get_tourist_attractions e lat lon limit of
             (attractions, t') \<Rightarrow>
               (if attractions = [] then Some (places_lead_in place_name @ no_attractions)
                else Some (places_lead_in place_name @ join [newline] (map a_name attractions)),
                t @ t')))"

definition connective :: string where
  "connective = ''And these are the places you can go: - - - - -'' @ [newline]"

definition places_piece :: "bool \<Rightarrow> string \<Rightarrow> string" where
  \<comment> \<open>the piece appended for a non-empty \<open>places_info\<close>; the flag is the test the
      orchestrator makes before it rewrites the lead-in\<close>
  "places_piece after_weather places_info =
     (if after_weather then
        (if str_in [newline] places_info then connective @ after_first_line places_info
         else ''And '' @ places_info)
      else places_info)"

definition offline_process_query ::
  "env \<Rightarrow> string \<Rightarrow> bool \<Rightarrow> bool \<Rightarrow> string \<times> event list" where
  \<comment> \<open>\<open>TourismSystemOffline.process_query\<close>\<close>
  "offline_process_query e place_name want_weather want_places =
     (let (parts1, t1) =
            (if want_weather then
               (case get_weather_info e place_name of
                  (weather_info, t) \<Rightarrow>
                    (if truthy weather_info then [the weather_info]
                     else [''Could not retrieve weather information for '' @ place_name @ ''.''],
                     t))
             else ([], []));
          (parts2, t2) =
            (if want_places then
               (case get_places_info e place_name 5 of
                  (places_info, t) \<Rightarrow>
                    (if truthy places_info
                     then parts1 @ [places_piece (want_weather \<and> parts1 \<noteq> []) (the places_info)]
                     else parts1 @ [''Could not retrieve tourist attractions for ''
                                      @ place_name @ ''.''],
                     t))
             else (parts1, []))
      in (if parts2 = []
          then ''Could not retrieve information for '' @ place_name @ ''. Please try again.''
          else join '' '' parts2,
          t1 @ t2))"

record intent =
  needs_weather :: bool
  needs_places :: bool

definition weather_keywords :: "string list" where
  "weather_keywords =
     [''temperature'', ''weather'', ''rain'', ''temperature there'', ''hot'', ''cold'', ''forecast'']"

definition places_keywords :: "string list" where
  "places_keywords =
     [''places'', ''visit'', ''attractions'', ''tourist'', ''see'', ''go'', ''plan my trip'']"

definition determine_intent :: "string \<Rightarrow> intent" where
  "determine_intent user_input =
     (let user_lower = lower user_input;
          w = list_ex (\<lambda>keyword. str_in keyword user_lower) weather_keywords;
          p = list_ex (\<lambda>keyword. str_in keyword user_lower) places_keywords
      in \<lparr> needs_weather = w, needs_places = (if \<not> w \<and> \<not> p then True else p) \<rparr>)"

definition extract_place_name :: "env \<Rightarrow> string \<Rightarrow> string option \<times> event list" where
  "extract_place_name e user_input =
     ((case chat_extract e user_input of
         None \<Rightarrow> None
       | Some content \<Rightarrow>
           (let place_name = strip content
            in if upper place_name = ''NONE'' \<or> place_name = [] then None
               else Some place_name)),
      [ChatCall user_input])"

definition agent_process_query :: "env \<Rightarrow> string \<Rightarrow> string \<times> event list" where
  \<comment> \<open>\<open>TourismAIAgent.process_query\<close>. The child agents' methods raise nothing (each
      client call catches every exception), so the two \<open>try\<close> blocks around them
      have no second branch here.\<close>
  "agent_process_query e user_input =
     (case extract_place_name e user_input of
        (None, t0) \<Rightarrow>
          (''I couldn't identify a place name in your message. Please specify a location.'',
           t0)
      | (Some place_name, t0) \<Rightarrow>
          (case verify_place_exists e place_name True of
             ((exists, place_details, msg), t1) \<Rightarrow>
               if \<not> exists then
                 ((case chat_unknown_place e place_name of
                     Some content \<Rightarrow> strip content
                   | None \<Rightarrow> ''I don't know this place exists. Could you please check ''
                       @ ''the spelling or provide more details about the location?''),
                  t0 @ t1 @ [ChatCall place_name])
               else
                 (let it = determine_intent user_input;
                      (weather_info, t2) =
                        (if needs_weather it then get_weather_info e place_name
                         else (None, []));
                      (places_info, t3) =
                        (if needs_places it then get_places_info e place_name 5
                         else (None, []));
                      parts1 = (if truthy weather_info then [the weather_info] else []);
                      parts2 =
                        (if truthy places_info
                         then parts1 @ [places_piece (truthy weather_info) (the places_info)]
                         else parts1)
                  in (if parts2 = []
                      then ''I found '' @ place_name
                             @ '', but couldn't retrieve information. Please try again.''
                      else join '' '' parts2,
                      t0 @ t1 @ t2 @ t3))))"

section \<open>app.py: the offline branch of the query handler\<close>

datatype reply =
    BadRequest
  | NotFound "string option"
  | Success string

definition query_offline ::
  "env \<Rightarrow> string \<Rightarrow> bool \<Rightarrow> bool \<Rightarrow> reply \<times> event list" where
  \<comment> \<open>\<open>query\<close> for mode \<open>offline\<close> and language \<open>en\<close> (nothing is translated). Of the
      404 reply only \<open>found_place\<close> is kept; its message is worded outside the model.\<close>
  "query_offline e place want_weather want_places =
     (let place_name = strip place
      in if place_name = [] then (BadRequest, [])
         else
           (case verify_place_exists e place_name True of
              ((exists, place_details, message), t1) \<Rightarrow>
                if \<not> exists then (NotFound (map_option pd_display_name place_details), t1)
                else
                  (case offline_process_query e place_name want_weather want_places of
                     (response, t2) \<Rightarrow> (Success response, t1 @ t2))))"

section \<open>The orchestrators when the services change between the facets\<close>

text \<open>
  Each facet looks the coordinates of the place up with a request of its own, and the
  two requests are the same; nothing makes the geocoder answer both alike. The two
  definitions below are the orchestrators once more, with the services as they answer
  while the weather facet is handled (\<open>ew\<close>) told apart from the services as they
  answer while the places facet is handled (\<open>ep\<close>); \<open>e\<close> is the services while the
  place is extracted and verified.
\<close>

definition offline_process_query_at ::
  "env \<Rightarrow> env \<Rightarrow> string \<Rightarrow> bool \<Rightarrow> bool \<Rightarrow> string \<times> event list" where
  \<comment> \<open>\<open>TourismSystemOffline.process_query\<close>\<close>
  "offline_process_query_at ew ep place_name want_weather want_places =
     (let (parts1, t1) =
            (if want_weather then
               (case get_weather_info ew place_name of
                  (weather_info, t) \<Rightarrow>
                    (if truthy weather_info then [the weather_info]
                     else [''Could not retrieve weather information for '' @ place_name @ ''.''],
                     t))
             else ([], []));
          (parts2, t2) =
            (if want_places then
               (case get_places_info ep place_name 5 of
                  (places_info, t) \<Rightarrow>
                    (if truthy places_info
                     then parts1 @ [places_piece (want_weather \<and> parts1 \<noteq> []) (the places_info)]
                     else parts1 @ [''Could not retrieve tourist attractions for ''
                                      @ place_name @ ''.''],
                     t))
             else (parts1, []))
      in (if parts2 = []
          then ''Could not retrieve information for '' @ place_name @ ''. Please try again.''
          else join '' '' parts2,
          t1 @ t2))"

definition agent_process_query_at :: "env \<Rightarrow> env \<Rightarrow> env \<Rightarrow> string \<Rightarrow> string \<times> event list" where
  \<comment> \<open>\<open>TourismAIAgent.process_query\<close>\<close>
  "agent_process_query_at e ew ep user_input =
     (case extract_place_name e user_input of
        (None, t0) \<Rightarrow>
          (''I couldn't identify a place name in your message. Please specify a location.'',
           t0)
      | (Some place_name, t0) \<Rightarrow>
          (case verify_place_exists e place_name True of
             ((exists, place_details, msg), t1) \<Rightarrow>
               if \<not> exists then
                 ((case chat_unknown_place e place_name of
                     Some content \<Rightarrow> strip content
                   | None \<Rightarrow> ''I don't know this place exists. Could you please check ''
                       @ ''the spelling or provide more details about the location?''),
                  t0 @ t1 @ [ChatCall place_name])
               else
                 (let it = determine_intent user_input;
                      (weather_info, t2) =
                        (if needs_weather it then get_weather_info ew place_name
                         else (None, []));
                      (places_info, t3) =
                        (if needs_places it then get_places_info ep place_name 5
                         else (None, []));
                      parts1 = (if truthy weather_info then [the weather_info] else []);
                      parts2 =
                        (if truthy places_info
                         then parts1 @ [places_piece (truthy weather_info) (the places_info)]
                         else parts1)
                  in (if parts2 = []
                      then ''I found '' @ place_name
                             @ '', but couldn't retrieve information. Please try again.''
                      else join '' '' parts2,
                      t0 @ t1 @ t2 @ t3))))"

section \<open>Notions used in the statements\<close>

datatype verification_outcome =
    Verified place_details
  | NotFoundOutcome
  | LowConfidence place_details

fun outcome :: "bool \<times> place_details option \<times> string \<Rightarrow> verification_outcome" where
  \<comment> \<open>the triple \<open>verify_place_exists\<close> returns, read as the specification's variant\<close>
  "outcome (True, Some d, m) = Verified d"
| "outcome (False, Some d, m) = LowConfidence d"
| "outcome (ex, None, m) = NotFoundOutcome"

definition verified_first :: "env \<Rightarrow> string \<Rightarrow> event list \<Rightarrow> bool" where
  \<comment> \<open>strict verification of the place succeeds, its geocoder request is in the trace,
      and no facet provider is called before that request\<close>
  "verified_first e place_name tr =
     (fst (fst (verify_place_exists e place_name True))
      \<and> Geocode place_name True \<in> set tr
      \<and> list_all (\<lambda>x. \<not> is_facet_call x) (takeWhile (\<lambda>x. x \<noteq> Geocode place_name True) tr))"

definition with_display_name :: "(geo_raw \<Rightarrow> string option) \<Rightarrow> env \<Rightarrow> env" where
  \<comment> \<open>the same services, the geocoder answering with other display names\<close>
  "with_display_name dn e =
     e \<lparr> nominatim := \<lambda>n a. map_option (map (\<lambda>r. r \<lparr> raw_display_name := dn r \<rparr>))
                                        (nominatim e n a) \<rparr>"

section \<open>Example worlds\<close>

definition degree_c :: string where
  "degree_c = [CHR 0xB0, CHR ''C'']"

definition bangalore_raw :: geo_raw where
  "bangalore_raw =
     \<lparr> raw_name = Some ''Bangalore'', raw_display_name = Some ''Bangalore'',
       raw_type = Some ''city'', raw_lat = Some (1297 / 100), raw_lon = Some (7759 / 100),
       raw_country = Some ''India'', raw_state = None, raw_city = None,
       raw_importance = Some (9 / 10), raw_osm_type = None \<rparr>"

definition bangalore_details :: place_details where
  "bangalore_details =
     \<lparr> pd_name = ''Bangalore'', pd_display_name = ''Bangalore'', pd_type = ''city'',
       pd_lat = 1297 / 100, pd_lon = 7759 / 100, pd_country = ''India'', pd_state = [],
       pd_city = [], pd_importance = 9 / 10, pd_osm_type = [],
       pd_match_confidence = High \<rparr>"

definition bangalore_env :: env where
  \<comment> \<open>Bangalore is found; 24 degrees, 10 percent; two attractions\<close>
  "bangalore_env =
     \<lparr> nominatim = (\<lambda>n a. if n = ''Bangalore'' then Some [bangalore_raw] else Some []),
       open_meteo = (\<lambda>la lo. Some \<lparr> current = Some (PyInt 24, PyInt 10),
                                    current_units = Some (Some degree_c) \<rparr>),
       overpass_api = (\<lambda>la lo. Some
          [\<lparr> tags = Some [(''tourism'', ''attraction''), (''name'', ''Lalbagh'')] \<rparr>,
           \<lparr> tags = Some [(''tourism'', ''attraction''), (''name'', ''Cubbon Park'')] \<rparr>]),
       chat_extract = (\<lambda>s. Some ''Bangalore''),
       chat_unknown_place = (\<lambda>s. None) \<rparr>"

definition smallville_raw :: geo_raw where
  "smallville_raw =
     \<lparr> raw_name = Some ''Smallville'', raw_display_name = Some ''Smallville, Kansas'',
       raw_type = Some ''hamlet'', raw_lat = Some 39, raw_lon = Some (- 95),
       raw_country = None, raw_state = None, raw_city = None,
       raw_importance = Some (1 / 10), raw_osm_type = None \<rparr>"

definition smallville_details :: place_details where
  "smallville_details =
     \<lparr> pd_name = ''Smallville'', pd_display_name = ''Smallville, Kansas'',
       pd_type = ''hamlet'', pd_lat = 39, pd_lon = - 95, pd_country = ''Unknown'',
       pd_state = [], pd_city = [], pd_importance = 1 / 10, pd_osm_type = [],
       pd_match_confidence = High \<rparr>"

definition smallville_env :: env where
  \<comment> \<open>as \<open>bangalore_env\<close>, the geocoder knowing only the hamlet Smallville\<close>
  "smallville_env =
     bangalore_env \<lparr> nominatim := (\<lambda>n a. if n = ''Smallville'' then Some [smallville_raw]
                                          else Some []),
                     chat_extract := (\<lambda>s. Some ''Smallville'') \<rparr>"

definition capital_env :: env where
  \<comment> \<open>as \<open>smallville_env\<close>, the feature type written with a capital letter\<close>
  "capital_env =
     smallville_env \<lparr> nominatim := (\<lambda>n a. if n = ''Smallville''
                                            then Some [smallville_raw \<lparr> raw_type := Some ''Hamlet'' \<rparr>]
                                            else Some []) \<rparr>"

definition capital_details :: place_details where
  "capital_details = smallville_details \<lparr> pd_type := ''Hamlet'' \<rparr>"

definition unreachable_env :: env where
  \<comment> \<open>every request raises\<close>
  "unreachable_env =
     \<lparr> nominatim = (\<lambda>n a. None), open_meteo = (\<lambda>la lo. None),
       overpass_api = (\<lambda>la lo. None), chat_extract = (\<lambda>s. None),
       chat_unknown_place = (\<lambda>s. None) \<rparr>"

definition no_weather_env :: env where
  \<comment> \<open>as \<open>bangalore_env\<close>, the weather service raising\<close>
  "no_weather_env = bangalore_env \<lparr> open_meteo := (\<lambda>la lo. None) \<rparr>"

definition no_overpass_env :: env where
  \<comment> \<open>as \<open>bangalore_env\<close>, the places service raising\<close>
  "no_overpass_env = bangalore_env \<lparr> overpass_api := (\<lambda>la lo. None) \<rparr>"

definition no_geocoder_env :: env where
  \<comment> \<open>as \<open>bangalore_env\<close>, the geocoder raising\<close>
  "no_geocoder_env = bangalore_env \<lparr> nominatim := (\<lambda>n a. None) \<rparr>"

definition places_ok :: "attraction list \<Rightarrow> string set \<Rightarrow> bool" where
  \<comment> \<open>what the loop of \<open>get_tourist_attractions\<close> keeps true of \<open>places\<close> and
      \<open>seen_names\<close>\<close>
  "places_ok places seen =
     (distinct (map a_name places) \<and> a_name ` set places \<subseteq> seen
      \<and> (\<forall>a \<in> set places. a_name a \<noteq> []))"

definition coords_down_env :: env where
  \<comment> \<open>as \<open>bangalore_env\<close>, the geocoder answering only requests with address details\<close>
  "coords_down_env =
     bangalore_env \<lparr> nominatim := (\<lambda>n a. if a then Some [bangalore_raw] else None) \<rparr>"

section \<open>Facts about the built-ins\<close>

lemma starts_with_iff: "starts_with w s \<longleftrightarrow> (\<exists>q. s = w @ q)"
  by (induction w s rule: starts_with.induct) auto

lemma str_in_iff: "str_in w s \<longleftrightarrow> (\<exists>p q. s = p @ w @ q)"
proof (induction s)
  case Nil
  show ?case by auto
next
  case (Cons b s)
  have "(\<exists>p q. b # s = p @ w @ q) \<longleftrightarrow> (\<exists>q. b # s = w @ q) \<or> (\<exists>p q. s = p @ w @ q)"
    by (auto simp: Cons_eq_append_conv)
  then show ?case
    using Cons by (simp only: str_in.simps starts_with_iff)
qed

lemma str_in_single: "str_in [c] s \<longleftrightarrow> c \<in> set s"
  by (induction s) auto

section \<open>Place verification\<close>




text \<open>
  Claim C7. If the geocoder has no match for the name, or its request fails, then
  verification returns the not-found triple, which carries no candidate record,
  whatever \<open>strict\<close> is.
\<close>

theorem verify_not_found:
  assumes "nominatim e name True = None \<or> nominatim e name True = Some []"
  shows "fst (verify_place_exists e name strict) = (False, None, unknown_place_msg)
       \<and> outcome (fst (verify_place_exists e name strict)) = NotFoundOutcome"
  using assms by (auto simp: verify_place_exists_def get_place_details_def)

theorem verify_not_found_witness:
  "(nominatim unreachable_env ''Atlantis'' True = None
    \<or> nominatim unreachable_env ''Atlantis'' True = Some [])
   \<and> outcome (fst (verify_place_exists unreachable_env ''Atlantis'' False)) = NotFoundOutcome
   \<and> outcome (fst (verify_place_exists unreachable_env ''Atlantis'' True)) = NotFoundOutcome"
proof -
  have h: "nominatim unreachable_env ''Atlantis'' True = None
           \<or> nominatim unreachable_env ''Atlantis'' True = Some []"
    by (simp add: unreachable_env_def)
  show ?thesis
    using h verify_not_found [OF h, of False] verify_not_found [OF h, of True] by blast
qed

text \<open>
  Claim C2, as the code has it. Whenever the geocoder resolves a record, verification
  rejects it (the low-confidence outcome, carrying the record) exactly when \<open>strict\<close>
  is set and either the importance is below 0.3 while the lower-cased feature type is
  one of hamlet, village, locality, or the match confidence is \<open>Low\<close>; in every other
  case it returns the verified outcome with the record. Without \<open>strict\<close> nothing is
  rejected.
\<close>

theorem verify_decision:
  assumes "fst (get_place_details e name) = Some d"
  shows "outcome (fst (verify_place_exists e name strict)) =
           (if strict \<and> ((pd_importance d < 3 / 10
                           \<and> lower (pd_type d) \<in> {''hamlet'', ''village'', ''locality''})
                          \<or> pd_match_confidence d = Low)
            then LowConfidence d else Verified d)"
  using assms
  by (cases "get_place_details e name") (auto simp: verify_place_exists_def Let_def)

theorem verify_decision_witness:
  "fst (get_place_details smallville_env ''Smallville'') = Some smallville_details
   \<and> outcome (fst (verify_place_exists smallville_env ''Smallville'' True))
       = LowConfidence smallville_details
   \<and> outcome (fst (verify_place_exists smallville_env ''Smallville'' False))
       = Verified smallville_details"
proof -
  have h: "fst (get_place_details smallville_env ''Smallville'') = Some smallville_details"
    by code_simp
  have t: "pd_importance smallville_details < 3 / 10
           \<and> lower (pd_type smallville_details) \<in> {''hamlet'', ''village'', ''locality''}"
    by code_simp
  show ?thesis
    using h t verify_decision [OF h, of True] verify_decision [OF h, of False] by simp
qed

text \<open>
  The claim as it is written compares the feature type itself. For the type
  \<open>Hamlet\<close>, importance 0.1 and a name equal to the query, strict verification
  rejects, although the type is none of the three tags and the confidence is not
  \<open>Low\<close>.
\<close>

theorem verify_decision_counterexample:
  "fst (get_place_details capital_env ''Smallville'') = Some capital_details
   \<and> outcome (fst (verify_place_exists capital_env ''Smallville'' True))
       = LowConfidence capital_details
   \<and> \<not> (True \<and> ((pd_importance capital_details < 3 / 10
                   \<and> pd_type capital_details \<in> {''hamlet'', ''village'', ''locality''})
                  \<or> pd_match_confidence capital_details = Low))"
  by code_simp

section \<open>Intent classification\<close>

text \<open>
  Claim C9. For every text, the weather flag is set exactly when the lower-cased text
  contains a weather keyword; the places flag is set exactly when it contains a places
  keyword or contains no weather keyword (so a places keyword always sets it, and a
  text matching neither list yields places alone); at least one flag is always set.
\<close>

theorem determine_intent_facets:
  "(needs_weather (determine_intent text) =
      (\<exists>k \<in> set weather_keywords. \<exists>p s. lower text = p @ k @ s))
   \<and> (needs_places (determine_intent text) =
        ((\<exists>k \<in> set places_keywords. \<exists>p s. lower text = p @ k @ s)
         \<or> \<not> (\<exists>k \<in> set weather_keywords. \<exists>p s. lower text = p @ k @ s)))
   \<and> (needs_weather (determine_intent text) \<or> needs_places (determine_intent text))"
  by (auto simp: determine_intent_def Let_def list_ex_iff str_in_iff)

theorem determine_intent_facets_witness:
  "needs_weather (determine_intent ''Weather and places in Goa'')
   \<and> needs_places (determine_intent ''Weather and places in Goa'')
   \<and> (\<exists>k \<in> set weather_keywords. \<exists>p s. lower ''Weather and places in Goa'' = p @ k @ s)
   \<and> determine_intent ''Mysore'' = \<lparr> needs_weather = False, needs_places = True \<rparr>
   \<and> \<not> (\<exists>k \<in> set places_keywords. \<exists>p s. lower ''Mysore'' = p @ k @ s)"
proof -
  have a: "needs_weather (determine_intent ''Weather and places in Goa'')
           \<and> needs_places (determine_intent ''Weather and places in Goa'')"
    by code_simp
  have b: "determine_intent ''Mysore'' = \<lparr> needs_weather = False, needs_places = True \<rparr>"
    by code_simp
  have c: "\<not> str_in k (lower ''Mysore'')" if "k \<in> set places_keywords" for k
    using that by (auto simp: places_keywords_def lower_def)
  show ?thesis
    using a b c determine_intent_facets [of "''Weather and places in Goa''"]
    by (auto simp: str_in_iff)
qed

section \<open>The attraction list\<close>

lemma places_ok_step:
  "places_ok places seen \<Longrightarrow> name \<noteq> [] \<Longrightarrow> name \<notin> seen \<Longrightarrow>
   places_ok (places @ [\<lparr> a_name = name, a_type = t \<rparr>]) (insert name seen)"
  unfolding places_ok_def by auto

lemma collect_places_ok:
  "places_ok places seen \<Longrightarrow> \<exists>seen'. places_ok (collect_places limit els places seen) seen'"
proof (induction els arbitrary: places seen)
  case Nil
  then show ?case by auto
next
  case (Cons element rest)
  note ih = Cons.IH
  note ok = Cons.prems
  show ?case
  proof (cases "tags element")
    case None
    then show ?thesis using ih [OF ok] by simp
  next
    case (Some tg)
    note tg = Some
    show ?thesis
    proof (cases "tg = [] \<or> map_of tg ''tourism'' = None")
      case True
      then show ?thesis using ih [OF ok] tg by auto
    next
      case False
      then have ne: "tg \<noteq> []" and "map_of tg ''tourism'' \<noteq> None"
        by simp_all
      then obtain ty where ty: "map_of tg ''tourism'' = Some ty"
        by auto
      note tour = ne ty
      show ?thesis
      proof (cases "py_or (py_or (map_of tg ''name'') (map_of tg ''name:en'')) (map_of tg ''name:en-GB'')")
        case None
        then show ?thesis using ih [OF ok] tg tour by simp
      next
        case (Some name)
        note nm = Some
        show ?thesis
        proof (cases "name \<noteq> [] \<and> name \<notin> seen")
          case False
          then show ?thesis using ih [OF ok] tg tour nm by auto
        next
          case True
          let ?p = "places @ [\<lparr> a_name = name, a_type = get_or (map_of tg ''tourism'') ''attraction'' \<rparr>]"
          have ok': "places_ok ?p (insert name seen)"
            using ok True by (simp add: places_ok_step)
          show ?thesis
          proof (cases "int (length ?p) \<ge> limit")
            case True
            have "collect_places limit (element # rest) places seen = ?p"
              using tg tour nm \<open>name \<noteq> [] \<and> name \<notin> seen\<close> True by (simp add: Let_def)
            then show ?thesis using ok' by auto
          next
            case False
            have "collect_places limit (element # rest) places seen
                    = collect_places limit rest ?p (insert name seen)"
              using tg tour nm \<open>name \<noteq> [] \<and> name \<notin> seen\<close> False by (simp add: Let_def)
            then show ?thesis using ih [OF ok'] by simp
          qed
        qed
      qed
    qed
  qed
qed


lemma slice_to_subset: "set (slice_to k xs) \<subseteq> set xs"
  unfolding slice_to_def by (auto dest: in_set_takeD)

lemma slice_to_distinct: "distinct (map f xs) \<Longrightarrow> distinct (map f (slice_to k xs))"
  unfolding slice_to_def by (simp add: distinct_take flip: take_map)

lemma slice_to_length: "0 \<le> k \<Longrightarrow> int (length (slice_to k xs)) \<le> k"
  unfolding slice_to_def by simp

text \<open>
  Claim C8. For every answer of the places service, all coordinates and every limit,
  the returned list has no two entries with the same name and no entry with an empty
  name; for every limit a caller can mean, one that is not negative, its length is at
  most the limit.
\<close>

theorem attractions_unique_named_bounded:
  "distinct (map a_name (fst (get_tourist_attractions e la lo limit)))
   \<and> (\<forall>a \<in> set (fst (get_tourist_attractions e la lo limit)). a_name a \<noteq> [])
   \<and> (0 \<le> limit \<longrightarrow> int (length (fst (get_tourist_attractions e la lo limit))) \<le> limit)"
proof (cases "overpass_api e la lo")
  case None
  then show ?thesis by (simp add: get_tourist_attractions_def)
next
  case (Some els)
  let ?xs = "collect_places limit els [] {}"
  have "places_ok [] {}"
    by (simp add: places_ok_def)
  then obtain seen' where ok: "places_ok ?xs seen'"
    using collect_places_ok by blast
  have res: "fst (get_tourist_attractions e la lo limit) = slice_to limit ?xs"
    using Some by (simp add: get_tourist_attractions_def)
  have d: "distinct (map a_name (slice_to limit ?xs))"
    using ok by (simp add: places_ok_def slice_to_distinct)
  have n: "\<forall>a \<in> set (slice_to limit ?xs). a_name a \<noteq> []"
    using ok slice_to_subset [of limit ?xs] unfolding places_ok_def by blast
  have l: "0 \<le> limit \<longrightarrow> int (length (slice_to limit ?xs)) \<le> limit"
    by (simp add: slice_to_length)
  show ?thesis
    unfolding res using d n l by blast
qed

theorem attractions_unique_named_bounded_witness:
  "(0::int) \<le> 1
   \<and> fst (get_tourist_attractions bangalore_env 1 2 1)
       = [\<lparr> a_name = ''Lalbagh'', a_type = ''attraction'' \<rparr>]
   \<and> int (length (fst (get_tourist_attractions bangalore_env 1 2 1))) \<le> 1"
proof -
  have v: "fst (get_tourist_attractions bangalore_env 1 2 1)
             = [\<lparr> a_name = ''Lalbagh'', a_type = ''attraction'' \<rparr>]"
    by code_simp
  have h: "(0::int) \<le> 1"
    by simp
  have "int (length (fst (get_tourist_attractions bangalore_env 1 2 1))) \<le> 1"
    using attractions_unique_named_bounded [of bangalore_env 1 2 1] h by blast
  then show ?thesis
    using v h by blast
qed

section \<open>The orchestrators\<close>

lemma get_coordinates_trace: "snd (get_coordinates e p) = [Geocode p False]"
  by (simp add: get_coordinates_def)

lemma extract_trace: "snd (extract_place_name e input) = [ChatCall input]"
  by (simp add: extract_place_name_def)

lemma verify_trace: "snd (verify_place_exists e p s) = [Geocode p True]"
  by (cases "nominatim e p True")
     (auto simp: verify_place_exists_def get_place_details_def Let_def split: list.splits)

lemma weather_info_form:
  "fst (get_weather_info e p) = Some w \<Longrightarrow> \<exists>wd. w = weather_sentence p wd"
  by (auto simp: get_weather_info_def split: prod.splits option.splits)

lemma weather_sentence_nonempty: "weather_sentence p wd \<noteq> []"
  by (simp add: weather_sentence_def)

lemma places_info_form:
  "fst (get_places_info e p l) = Some pl \<Longrightarrow> \<exists>body. pl = places_lead_in p @ body"
  by (auto simp: get_places_info_def split: prod.splits option.splits if_splits)

lemma places_lead_in_facts:
  "places_lead_in p @ body \<noteq> []" "str_in [newline] (places_lead_in p @ body)"
  by (simp_all add: places_lead_in_def str_in_single)

lemma truthy_weather:
  "fst (get_weather_info e p) = Some w \<Longrightarrow> truthy (fst (get_weather_info e p))"
  using weather_info_form [of e p w] by (auto simp: truthy_def weather_sentence_nonempty)

lemma places_lead_in_nonempty: "places_lead_in p \<noteq> []"
  by (simp add: places_lead_in_def)

lemma truthy_places:
  "fst (get_places_info e p l) = Some pl \<Longrightarrow> truthy (fst (get_places_info e p l))"
  using places_info_form [of e p l pl] by (auto simp: truthy_def places_lead_in_nonempty)

lemma truthy_None: "\<not> truthy None"
  by (simp add: truthy_def)

lemma offline_response:
  "fst (offline_process_query e p gw gp) =
     (let wi = fst (get_weather_info e p);
          pi = fst (get_places_info e p 5);
          parts1 = (if gw then [if truthy wi then the wi
                                else ''Could not retrieve weather information for '' @ p @ ''.'']
                    else []);
          parts2 = (if gp then parts1 @ [if truthy pi then places_piece gw (the pi)
                                         else ''Could not retrieve tourist attractions for '' @ p @ ''.'']
                    else parts1)
      in if parts2 = [] then ''Could not retrieve information for '' @ p @ ''. Please try again.''
         else join '' '' parts2)"
  by (cases gw; cases gp) (simp_all add: offline_process_query_def Let_def split: prod.splits)

lemma offline_trace:
  "snd (offline_process_query e p gw gp) =
     (if gw then snd (get_weather_info e p) else [])
     @ (if gp then snd (get_places_info e p 5) else [])"
  by (cases gw; cases gp) (simp_all add: offline_process_query_def Let_def split: prod.splits)

lemma agent_response:
  assumes "fst (extract_place_name e input) = Some p"
      and "fst (fst (verify_place_exists e p True))"
  shows "fst (agent_process_query e input) =
     (let it = determine_intent input;
          wi = (if needs_weather it then fst (get_weather_info e p) else None);
          pi = (if needs_places it then fst (get_places_info e p 5) else None);
          parts1 = (if truthy wi then [the wi] else []);
          parts2 = (if truthy pi then parts1 @ [places_piece (truthy wi) (the pi)] else parts1)
      in if parts2 = []
         then ''I found '' @ p @ '', but couldn't retrieve information. Please try again.''
         else join '' '' parts2)"
  using assms
  by (cases "extract_place_name e input"; cases "verify_place_exists e p True")
     (auto simp: agent_process_query_def Let_def split: prod.splits)

lemma agent_trace:
  assumes "fst (extract_place_name e input) = Some p"
      and "fst (fst (verify_place_exists e p True))"
  shows "snd (agent_process_query e input) =
     [ChatCall input, Geocode p True]
     @ (if needs_weather (determine_intent input) then snd (get_weather_info e p) else [])
     @ (if needs_places (determine_intent input) then snd (get_places_info e p 5) else [])"
  using assms extract_trace [of e input] verify_trace [of e p True]
  by (cases "extract_place_name e input"; cases "verify_place_exists e p True")
     (auto simp: agent_process_query_def Let_def split: prod.splits)

lemma agent_trace_unverified:
  assumes "fst (extract_place_name e input) = Some p"
      and "\<not> fst (fst (verify_place_exists e p True))"
  shows "snd (agent_process_query e input) = [ChatCall input, Geocode p True, ChatCall p]"
  using assms extract_trace [of e input] verify_trace [of e p True]
  by (cases "extract_place_name e input"; cases "verify_place_exists e p True")
     (auto simp: agent_process_query_def Let_def split: prod.splits)

lemma agent_trace_none:
  assumes "fst (extract_place_name e input) = None"
  shows "snd (agent_process_query e input) = [ChatCall input]"
  using assms extract_trace [of e input]
  by (cases "extract_place_name e input") (auto simp: agent_process_query_def)


lemma takeWhile_line: "c \<notin> set xs \<Longrightarrow> takeWhile (\<lambda>x. x \<noteq> c) (xs @ c # ys) = xs"
  by (induction xs) auto

lemma after_first_line_split:
  "newline \<notin> set xs \<Longrightarrow> after_first_line (xs @ newline # ys) = ys"
  by (simp add: after_first_line_def takeWhile_line)

lemma after_first_line_lead_in:
  assumes "newline \<notin> set p"
  shows "after_first_line (places_lead_in p @ body) = body"
proof -
  let ?xs = "''In '' @ p @ '' these are the places you can go, - - - - -''"
  have "newline \<notin> set ?xs"
    using assms by (simp add: newline_def)
  then have "after_first_line (?xs @ newline # body) = body"
    by (rule after_first_line_split)
  moreover have "places_lead_in p @ body = ?xs @ newline # body"
    by (simp add: places_lead_in_def)
  ultimately show ?thesis by simp
qed

text \<open>
  Claim C1. When the weather rendering and the places rendering both exist, the
  structured orchestrator asked for both facets answers with the weather sentence, one
  space, the connective line \<open>And these are the places you can go: - - - - -\<close> and
  then the part of the places rendering after its first line; the free-text
  orchestrator answers the same when the extracted place is verified and the text asks
  for both facets. For a place name without a line break the places rendering is its
  lead-in line followed by exactly that kept part.
\<close>

theorem merged_response:
  assumes w: "fst (get_weather_info e p) = Some w"
      and pl: "fst (get_places_info e p 5) = Some pl"
  shows "fst (offline_process_query e p True True)
           = w @ '' '' @ ''And these are the places you can go: - - - - -'' @ [newline]
               @ after_first_line pl
       \<and> (fst (extract_place_name e input) = Some p
          \<and> fst (fst (verify_place_exists e p True))
          \<and> needs_weather (determine_intent input)
          \<and> needs_places (determine_intent input)
          \<longrightarrow> fst (agent_process_query e input)
                = w @ '' '' @ ''And these are the places you can go: - - - - -'' @ [newline]
                    @ after_first_line pl)
       \<and> (newline \<notin> set p
          \<longrightarrow> pl = ''In '' @ p @ '' these are the places you can go, - - - - -'' @ [newline]
                    @ after_first_line pl)"
proof -
  have tw: "truthy (fst (get_weather_info e p))"
    using w by (rule truthy_weather)
  have tp: "truthy (fst (get_places_info e p 5))"
    using pl by (rule truthy_places)
  obtain body where b: "pl = places_lead_in p @ body"
    using places_info_form [OF pl] by blast
  have piece: "places_piece True pl = connective @ after_first_line pl"
    by (simp add: places_piece_def b places_lead_in_facts)
  have off: "fst (offline_process_query e p True True) = w @ '' '' @ connective @ after_first_line pl"
    using tw tp by (simp add: offline_response Let_def w pl piece)
  have ag: "fst (agent_process_query e input) = w @ '' '' @ connective @ after_first_line pl"
    if "fst (extract_place_name e input) = Some p"
      and "fst (fst (verify_place_exists e p True))"
      and "needs_weather (determine_intent input)"
      and "needs_places (determine_intent input)"
    using that tw tp by (simp add: agent_response Let_def w pl piece)
  have third: "pl = places_lead_in p @ after_first_line pl" if "newline \<notin> set p"
    using that b by (simp add: after_first_line_lead_in)
  show ?thesis
    using off ag third by (simp add: connective_def places_lead_in_def)
qed

theorem merged_response_witness:
  "fst (get_weather_info bangalore_env ''Bangalore'')
     = Some (''In Bangalore it's currently 24'' @ degree_c @ '' with a chance of 10% to rain.'')
   \<and> fst (get_places_info bangalore_env ''Bangalore'' 5)
       = Some (''In Bangalore these are the places you can go, - - - - -'' @ [newline]
               @ ''Lalbagh'' @ [newline] @ ''Cubbon Park'')
   \<and> fst (offline_process_query bangalore_env ''Bangalore'' True True)
       = ''In Bangalore it's currently 24'' @ degree_c
         @ '' with a chance of 10% to rain. And these are the places you can go: - - - - -''
         @ [newline] @ ''Lalbagh'' @ [newline] @ ''Cubbon Park''
   \<and> fst (agent_process_query bangalore_env
             ''What is the weather in Bangalore and what places can I visit'')
       = ''In Bangalore it's currently 24'' @ degree_c
         @ '' with a chance of 10% to rain. And these are the places you can go: - - - - -''
         @ [newline] @ ''Lalbagh'' @ [newline] @ ''Cubbon Park''"
proof -
  let ?input = "''What is the weather in Bangalore and what places can I visit''"
  have w: "fst (get_weather_info bangalore_env ''Bangalore'')
             = Some (''In Bangalore it's currently 24'' @ degree_c
                     @ '' with a chance of 10% to rain.'')"
    by code_simp
  have pl: "fst (get_places_info bangalore_env ''Bangalore'' 5)
              = Some (''In Bangalore these are the places you can go, - - - - -'' @ [newline]
                      @ ''Lalbagh'' @ [newline] @ ''Cubbon Park'')"
    by code_simp
  have a: "fst (extract_place_name bangalore_env ?input) = Some ''Bangalore''
           \<and> fst (fst (verify_place_exists bangalore_env ''Bangalore'' True))
           \<and> needs_weather (determine_intent ?input)
           \<and> needs_places (determine_intent ?input)"
    by code_simp
  have r: "after_first_line (''In Bangalore these are the places you can go, - - - - -''
                             @ [newline] @ ''Lalbagh'' @ [newline] @ ''Cubbon Park'')
             = ''Lalbagh'' @ [newline] @ ''Cubbon Park''"
    by (simp add: after_first_line_def newline_def)
  note m = merged_response [OF w pl, of ?input]
  have off: "fst (offline_process_query bangalore_env ''Bangalore'' True True)
       = ''In Bangalore it's currently 24'' @ degree_c
         @ '' with a chance of 10% to rain. And these are the places you can go: - - - - -''
         @ [newline] @ ''Lalbagh'' @ [newline] @ ''Cubbon Park''"
    using m [THEN conjunct1, unfolded r] by simp
  have ag: "fst (agent_process_query bangalore_env ?input)
       = ''In Bangalore it's currently 24'' @ degree_c
         @ '' with a chance of 10% to rain. And these are the places you can go: - - - - -''
         @ [newline] @ ''Lalbagh'' @ [newline] @ ''Cubbon Park''"
    using m [THEN conjunct2, THEN conjunct1, unfolded r] a by simp
  show ?thesis
    by (rule conjI [OF w conjI [OF pl conjI [OF off ag]]])
qed

lemma offline_at_same:
  "offline_process_query_at e e p gw gp = offline_process_query e p gw gp"
  by (simp add: offline_process_query_at_def offline_process_query_def)

lemma agent_at_same:
  "agent_process_query_at e e e input = agent_process_query e input"
  by (simp add: agent_process_query_at_def agent_process_query_def)

lemma offline_at_response:
  "fst (offline_process_query_at ew ep p gw gp) =
     (let wi = fst (get_weather_info ew p);
          pi = fst (get_places_info ep p 5);
          parts1 = (if gw then [if truthy wi then the wi
                                else ''Could not retrieve weather information for '' @ p @ ''.'']
                    else []);
          parts2 = (if gp then parts1 @ [if truthy pi then places_piece gw (the pi)
                                         else ''Could not retrieve tourist attractions for '' @ p @ ''.'']
                    else parts1)
      in if parts2 = [] then ''Could not retrieve information for '' @ p @ ''. Please try again.''
         else join '' '' parts2)"
  by (cases gw; cases gp) (simp_all add: offline_process_query_at_def Let_def split: prod.splits)

lemma offline_at_trace:
  "snd (offline_process_query_at ew ep p gw gp) =
     (if gw then snd (get_weather_info ew p) else [])
     @ (if gp then snd (get_places_info ep p 5) else [])"
  by (cases gw; cases gp) (simp_all add: offline_process_query_at_def Let_def split: prod.splits)

lemma agent_at_response:
  assumes "fst (extract_place_name e input) = Some p"
      and "fst (fst (verify_place_exists e p True))"
  shows "fst (agent_process_query_at e ew ep input) =
     (if (if truthy (if needs_places (determine_intent input)
                     then fst (get_places_info ep p 5) else None)
          then (if truthy (if needs_weather (determine_intent input)
                           then fst (get_weather_info ew p) else None)
                then [the (if needs_weather (determine_intent input)
                           then fst (get_weather_info ew p) else None)]
                else [])
               @ [places_piece
                    (truthy (if needs_weather (determine_intent input)
                             then fst (get_weather_info ew p) else None))
                    (the (if needs_places (determine_intent input)
                          then fst (get_places_info ep p 5) else None))]
          else (if truthy (if needs_weather (determine_intent input)
                           then fst (get_weather_info ew p) else None)
                then [the (if needs_weather (determine_intent input)
                           then fst (get_weather_info ew p) else None)]
                else [])) = []
      then ''I found '' @ p @ '', but couldn't retrieve information. Please try again.''
      else join '' ''
             (if truthy (if needs_places (determine_intent input)
                         then fst (get_places_info ep p 5) else None)
              then (if truthy (if needs_weather (determine_intent input)
                               then fst (get_weather_info ew p) else None)
                    then [the (if needs_weather (determine_intent input)
                               then fst (get_weather_info ew p) else None)]
                    else [])
                   @ [places_piece
                        (truthy (if needs_weather (determine_intent input)
                                 then fst (get_weather_info ew p) else None))
                        (the (if needs_places (determine_intent input)
                              then fst (get_places_info ep p 5) else None))]
              else (if truthy (if needs_weather (determine_intent input)
                               then fst (get_weather_info ew p) else None)
                    then [the (if needs_weather (determine_intent input)
                               then fst (get_weather_info ew p) else None)]
                    else [])))"
  using assms
  by (cases "extract_place_name e input"; cases "verify_place_exists e p True";
      cases "needs_weather (determine_intent input)";
      cases "needs_places (determine_intent input)")
     (auto simp: agent_process_query_at_def Let_def split: prod.splits)

lemma agent_at_trace:
  assumes "fst (extract_place_name e input) = Some p"
      and "fst (fst (verify_place_exists e p True))"
  shows "snd (agent_process_query_at e ew ep input) =
     [ChatCall input, Geocode p True]
     @ (if needs_weather (determine_intent input) then snd (get_weather_info ew p) else [])
     @ (if needs_places (determine_intent input) then snd (get_places_info ep p 5) else [])"
  using assms extract_trace [of e input] verify_trace [of e p True]
  by (cases "extract_place_name e input"; cases "verify_place_exists e p True")
     (auto simp: agent_process_query_at_def Let_def split: prod.splits)

lemma assemble_cases:
  assumes "\<And>w. W = Some w \<Longrightarrow> truthy W"
      and "\<And>pl. P = Some pl \<Longrightarrow> truthy P"
      and "\<And>pl. P = Some pl \<Longrightarrow> places_piece True pl = connective @ after_first_line pl"
  shows "(if (if truthy P then (if truthy W then [the W] else [])
                              @ [places_piece (truthy W) (the P)]
              else (if truthy W then [the W] else [])) = []
          then G
          else join '' ''
                 (if truthy P then (if truthy W then [the W] else [])
                                   @ [places_piece (truthy W) (the P)]
                  else (if truthy W then [the W] else [])))
         = (case (W, P) of
              (None, None) \<Rightarrow> G
            | (Some w, None) \<Rightarrow> w
            | (None, Some pl) \<Rightarrow> pl
            | (Some w, Some pl) \<Rightarrow>
                w @ '' '' @ ''And these are the places you can go: - - - - -'' @ [newline]
                  @ after_first_line pl)"
proof (cases W)
  case None
  note wn = None
  show ?thesis
  proof (cases P)
    case None
    then show ?thesis
      using wn by (simp add: truthy_None)
  next
    case (Some pl)
    then show ?thesis
      using wn assms(2) [OF Some] by (simp add: truthy_None places_piece_def)
  qed
next
  case (Some w)
  note ws = Some
  show ?thesis
  proof (cases P)
    case None
    then show ?thesis
      using ws assms(1) [OF ws] by (simp add: truthy_None)
  next
    case (Some pl)
    then show ?thesis
      using ws assms(1) [OF ws] assms(2) [OF Some] assms(3) [OF Some]
      by (simp add: connective_def)
  qed
qed

lemma places_info_none:
  "fst (get_places_info e p l) = None \<longleftrightarrow> fst (get_coordinates e p) = None"
  by (auto simp: get_places_info_def split: prod.splits option.splits)

lemma places_info_empty:
  "fst (get_coordinates e p) = Some (la, lo)
   \<Longrightarrow> fst (get_tourist_attractions e la lo l) = []
   \<Longrightarrow> fst (get_places_info e p l) = Some (places_lead_in p @ no_attractions)"
  by (auto simp: get_places_info_def split: prod.splits option.splits)

lemma weather_info_none:
  "fst (get_weather_info e p) = None \<longleftrightarrow>
     (case fst (get_coordinates e p) of
        None \<Rightarrow> True
      | Some (la, lo) \<Rightarrow> fst (get_weather e la lo) = None)"
  by (auto simp: get_weather_info_def split: prod.splits option.splits)

lemma facet_trace_heads:
  "hd (snd (get_weather_info e p)) = Geocode p False"
  "hd (snd (get_places_info e p l)) = Geocode p False"
  using get_coordinates_trace [of e p]
  by (auto simp: get_weather_info_def get_places_info_def split: prod.splits option.splits)

text \<open>
  Claim C4, as the code has it. The two orchestrators treat a requested facet whose
  rendering is missing differently, whether or not the services answer the two facets
  alike. The structured orchestrator puts a sentence in the place of the facet:
  \<open>Could not retrieve weather information for <place>.\<close> for the weather,
  \<open>Could not retrieve tourist attractions for <place>.\<close> for the places; asked for both
  facets it joins the two pieces with one space, a places rendering coming behind the
  connective line whether or not the weather was retrieved, and it attempts both
  renderings, each of which begins with its coordinate request. The free-text
  orchestrator, for a verified place, attempts every rendering the text asks for and
  leaves a missing one out: the answer is what was rendered, and the sentence
  \<open>I found <place>, but couldn't retrieve information. Please try again.\<close> when
  nothing was. The weather rendering is missing exactly when the coordinate lookup or
  the weather client returns nothing. The places rendering is missing exactly when the
  coordinate lookup returns nothing: when the places service fails or yields no
  attraction, the rendering is the lead-in line followed by
  \<open>(No tourist attractions found in the database)\<close>.
\<close>

theorem facet_failure_pieces:
  "fst (offline_process_query_at ew ep p True False)
     = (case fst (get_weather_info ew p) of
          None \<Rightarrow> ''Could not retrieve weather information for '' @ p @ ''.''
        | Some w \<Rightarrow> w)
   \<and> fst (offline_process_query_at ew ep p False True)
       = (case fst (get_places_info ep p 5) of
            None \<Rightarrow> ''Could not retrieve tourist attractions for '' @ p @ ''.''
          | Some pl \<Rightarrow> pl)
   \<and> fst (offline_process_query_at ew ep p True True)
       = (case fst (get_weather_info ew p) of
            None \<Rightarrow> ''Could not retrieve weather information for '' @ p @ ''.''
          | Some w \<Rightarrow> w)
         @ '' ''
         @ (case fst (get_places_info ep p 5) of
              None \<Rightarrow> ''Could not retrieve tourist attractions for '' @ p @ ''.''
            | Some pl \<Rightarrow> ''And these are the places you can go: - - - - -'' @ [newline]
                          @ after_first_line pl)
   \<and> snd (offline_process_query_at ew ep p True True)
       = snd (get_weather_info ew p) @ snd (get_places_info ep p 5)
   \<and> hd (snd (get_weather_info ew p)) = Geocode p False
   \<and> hd (snd (get_places_info ep p l)) = Geocode p False
   \<and> (fst (extract_place_name e input) = Some p
      \<and> fst (fst (verify_place_exists e p True))
      \<longrightarrow> fst (agent_process_query_at e ew ep input)
            = (case (if needs_weather (determine_intent input)
                     then fst (get_weather_info ew p) else None,
                     if needs_places (determine_intent input)
                     then fst (get_places_info ep p 5) else None) of
                 (None, None) \<Rightarrow>
                   ''I found '' @ p @ '', but couldn't retrieve information. Please try again.''
               | (Some w, None) \<Rightarrow> w
               | (None, Some pl) \<Rightarrow> pl
               | (Some w, Some pl) \<Rightarrow>
                   w @ '' '' @ ''And these are the places you can go: - - - - -'' @ [newline]
                     @ after_first_line pl)
          \<and> snd (agent_process_query_at e ew ep input)
              = [ChatCall input, Geocode p True]
                @ (if needs_weather (determine_intent input)
                   then snd (get_weather_info ew p) else [])
                @ (if needs_places (determine_intent input)
                   then snd (get_places_info ep p 5) else []))
   \<and> (fst (get_weather_info ew p) = None
        \<longleftrightarrow> (case fst (get_coordinates ew p) of
               None \<Rightarrow> True
             | Some (wla, wlo) \<Rightarrow> fst (get_weather ew wla wlo) = None))
   \<and> (fst (get_places_info ep p l) = None \<longleftrightarrow> fst (get_coordinates ep p) = None)
   \<and> (fst (get_coordinates ep p) = Some (la, lo)
        \<and> (overpass_api ep la lo = None \<or> fst (get_tourist_attractions ep la lo l) = [])
      \<longrightarrow> fst (get_places_info ep p l)
            = Some (''In '' @ p @ '' these are the places you can go, - - - - -'' @ [newline]
                    @ ''(No tourist attractions found in the database)''))"
proof -
  have piece: "places_piece True pl = connective @ after_first_line pl"
    if "fst (get_places_info ep p 5) = Some pl" for pl
    using places_info_form [OF that] by (auto simp: places_piece_def places_lead_in_facts)
  have wcase: "(if truthy (fst (get_weather_info ew p)) then the (fst (get_weather_info ew p)) else d)
                 = (case fst (get_weather_info ew p) of None \<Rightarrow> d | Some w \<Rightarrow> w)" for d
    using truthy_weather [of ew p]
    by (cases "fst (get_weather_info ew p)") (simp_all add: truthy_None)
  have pcase: "(if truthy (fst (get_places_info ep p 5)) then f (the (fst (get_places_info ep p 5)))
                else d)
                 = (case fst (get_places_info ep p 5) of None \<Rightarrow> d | Some pl \<Rightarrow> f pl)" for d f
    using truthy_places [of ep p 5]
    by (cases "fst (get_places_info ep p 5)") (simp_all add: truthy_None)
  have c1: "fst (offline_process_query_at ew ep p True False)
     = (case fst (get_weather_info ew p) of
          None \<Rightarrow> ''Could not retrieve weather information for '' @ p @ ''.''
        | Some w \<Rightarrow> w)"
    by (simp add: offline_at_response Let_def wcase)
  have c2: "fst (offline_process_query_at ew ep p False True)
       = (case fst (get_places_info ep p 5) of
            None \<Rightarrow> ''Could not retrieve tourist attractions for '' @ p @ ''.''
          | Some pl \<Rightarrow> pl)"
    using pcase [of "places_piece False"]
    by (simp add: offline_at_response Let_def places_piece_def split: option.split)
  have c3: "fst (offline_process_query_at ew ep p True True)
       = (case fst (get_weather_info ew p) of
            None \<Rightarrow> ''Could not retrieve weather information for '' @ p @ ''.''
          | Some w \<Rightarrow> w)
         @ '' ''
         @ (case fst (get_places_info ep p 5) of
              None \<Rightarrow> ''Could not retrieve tourist attractions for '' @ p @ ''.''
            | Some pl \<Rightarrow> ''And these are the places you can go: - - - - -'' @ [newline]
                          @ after_first_line pl)"
  proof (cases "fst (get_places_info ep p 5)")
    case None
    then show ?thesis
      by (simp add: offline_at_response Let_def wcase truthy_None)
  next
    case (Some pl)
    then show ?thesis
      using truthy_places [OF Some] piece [OF Some]
      by (simp add: offline_at_response Let_def wcase connective_def)
  qed
  have c4: "snd (offline_process_query_at ew ep p True True)
       = snd (get_weather_info ew p) @ snd (get_places_info ep p 5)"
    by (simp add: offline_at_trace)
  have c5: "fst (agent_process_query_at e ew ep input)
            = (case (if needs_weather (determine_intent input)
                     then fst (get_weather_info ew p) else None,
                     if needs_places (determine_intent input)
                     then fst (get_places_info ep p 5) else None) of
                 (None, None) \<Rightarrow>
                   ''I found '' @ p @ '', but couldn't retrieve information. Please try again.''
               | (Some w, None) \<Rightarrow> w
               | (None, Some pl) \<Rightarrow> pl
               | (Some w, Some pl) \<Rightarrow>
                   w @ '' '' @ ''And these are the places you can go: - - - - -'' @ [newline]
                     @ after_first_line pl)
          \<and> snd (agent_process_query_at e ew ep input)
              = [ChatCall input, Geocode p True]
                @ (if needs_weather (determine_intent input)
                   then snd (get_weather_info ew p) else [])
                @ (if needs_places (determine_intent input)
                   then snd (get_places_info ep p 5) else [])"
    if h: "fst (extract_place_name e input) = Some p"
          "fst (fst (verify_place_exists e p True))"
  proof -
    let ?W = "if needs_weather (determine_intent input) then fst (get_weather_info ew p) else None"
    let ?P = "if needs_places (determine_intent input) then fst (get_places_info ep p 5) else None"
    have tw: "truthy ?W" if "?W = Some w" for w
      using that truthy_weather [of ew p w]
      by (cases "needs_weather (determine_intent input)") simp_all
    have tp: "truthy ?P" if "?P = Some pl" for pl
      using that truthy_places [of ep p 5 pl]
      by (cases "needs_places (determine_intent input)") simp_all
    have pp: "places_piece True pl = connective @ after_first_line pl" if "?P = Some pl" for pl
      using that piece [of pl]
      by (cases "needs_places (determine_intent input)") simp_all
    have r: "fst (agent_process_query_at e ew ep input)
            = (case (?W, ?P) of
                 (None, None) \<Rightarrow>
                   ''I found '' @ p @ '', but couldn't retrieve information. Please try again.''
               | (Some w, None) \<Rightarrow> w
               | (None, Some pl) \<Rightarrow> pl
               | (Some w, Some pl) \<Rightarrow>
                   w @ '' '' @ ''And these are the places you can go: - - - - -'' @ [newline]
                     @ after_first_line pl)"
      unfolding agent_at_response [OF h]
      by (rule assemble_cases [of ?W ?P, OF tw tp pp])
    show ?thesis
      by (rule conjI [OF r agent_at_trace [OF h]])
  qed
  have c6: "fst (get_places_info ep p l)
            = Some (''In '' @ p @ '' these are the places you can go, - - - - -'' @ [newline]
                    @ ''(No tourist attractions found in the database)'')"
    if co: "fst (get_coordinates ep p) = Some (la, lo)"
      and em: "overpass_api ep la lo = None \<or> fst (get_tourist_attractions ep la lo l) = []"
  proof -
    have "fst (get_tourist_attractions ep la lo l) = []"
      using em by (auto simp: get_tourist_attractions_def)
    then show ?thesis
      using places_info_empty [OF co] by (simp add: places_lead_in_def no_attractions_def)
  qed
  show ?thesis
    using c1 c2 c3 c4 c5 c6 facet_trace_heads(1) [of ew p] facet_trace_heads(2) [of ep p l]
      weather_info_none [of ew p] places_info_none [of ep p l]
    by blast
qed

theorem facet_failure_pieces_witness:
  "fst (extract_place_name bangalore_env ''weather and places in Bangalore'') = Some ''Bangalore''
   \<and> fst (fst (verify_place_exists bangalore_env ''Bangalore'' True))
   \<and> fst (get_weather_info bangalore_env ''Bangalore'')
       = Some (''In Bangalore it's currently 24'' @ degree_c @ '' with a chance of 10% to rain.'')
   \<and> fst (get_places_info no_geocoder_env ''Bangalore'' 5) = None
   \<and> fst (agent_process_query_at bangalore_env bangalore_env no_geocoder_env
             ''weather and places in Bangalore'')
       = ''In Bangalore it's currently 24'' @ degree_c @ '' with a chance of 10% to rain.''
   \<and> fst (offline_process_query_at bangalore_env no_geocoder_env ''Bangalore'' True True)
       = ''In Bangalore it's currently 24'' @ degree_c @ '' with a chance of 10% to rain.''
         @ '' Could not retrieve tourist attractions for Bangalore.''
   \<and> fst (get_coordinates no_overpass_env ''Bangalore'') = Some (1297 / 100, 7759 / 100)
   \<and> overpass_api no_overpass_env (1297 / 100) (7759 / 100) = None
   \<and> fst (get_weather_info no_weather_env ''Bangalore'') = None
   \<and> fst (get_places_info no_overpass_env ''Bangalore'' 5)
       = Some (''In Bangalore these are the places you can go, - - - - -'' @ [newline]
               @ ''(No tourist attractions found in the database)'')
   \<and> fst (agent_process_query_at bangalore_env no_weather_env no_overpass_env
             ''weather and places in Bangalore'')
       = ''In Bangalore these are the places you can go, - - - - -'' @ [newline]
         @ ''(No tourist attractions found in the database)''"
proof -
  let ?input = "''weather and places in Bangalore''"
  let ?w = "''In Bangalore it's currently 24'' @ degree_c @ '' with a chance of 10% to rain.''"
  let ?none = "''In Bangalore these are the places you can go, - - - - -'' @ [newline]
               @ ''(No tourist attractions found in the database)''"
  have a: "fst (extract_place_name bangalore_env ?input) = Some ''Bangalore''"
    by code_simp
  have v: "fst (fst (verify_place_exists bangalore_env ''Bangalore'' True))"
    by code_simp
  have nw: "needs_weather (determine_intent ?input)"
    by code_simp
  have np: "needs_places (determine_intent ?input)"
    by code_simp
  have w: "fst (get_weather_info bangalore_env ''Bangalore'') = Some ?w"
    by code_simp
  have pn: "fst (get_places_info no_geocoder_env ''Bangalore'' 5) = None"
    by code_simp
  have co: "fst (get_coordinates no_overpass_env ''Bangalore'') = Some (1297 / 100, 7759 / 100)"
    by code_simp
  have ov: "overpass_api no_overpass_env (1297 / 100) (7759 / 100) = None"
    by code_simp
  have wn: "fst (get_weather_info no_weather_env ''Bangalore'') = None"
    by code_simp
  note m1 = facet_failure_pieces
              [where e = bangalore_env and ew = bangalore_env and ep = no_geocoder_env
                 and p = "''Bangalore''" and input = ?input and l = 5]
  note m2 = facet_failure_pieces
              [where e = bangalore_env and ew = no_weather_env and ep = no_overpass_env
                 and p = "''Bangalore''" and input = ?input and l = 5
                 and la = "1297 / 100" and lo = "7759 / 100"]
  have ag1: "fst (agent_process_query_at bangalore_env bangalore_env no_geocoder_env ?input) = ?w"
    using m1 a v by (simp add: nw np w pn)
  have off1: "fst (offline_process_query_at bangalore_env no_geocoder_env ''Bangalore'' True True)
                = ''In Bangalore it's currently 24'' @ degree_c
                  @ '' with a chance of 10% to rain.''
                  @ '' Could not retrieve tourist attractions for Bangalore.''"
    using m1 by (simp add: w pn)
  have pl2: "fst (get_places_info no_overpass_env ''Bangalore'' 5) = Some ?none"
    using m2 co ov by simp
  have ag2: "fst (agent_process_query_at bangalore_env no_weather_env no_overpass_env ?input)
               = ?none"
    using m2 a v by (simp add: nw np wn pl2)
  show ?thesis
    by (rule conjI [OF a conjI [OF v conjI [OF w conjI [OF pn conjI [OF ag1 conjI [OF off1
          conjI [OF co conjI [OF ov conjI [OF wn conjI [OF pl2 ag2]]]]]]]]]])
qed

theorem facet_failure_pieces_counterexample:
  "needs_weather (determine_intent ''temperature in Bangalore'')
   \<and> \<not> needs_places (determine_intent ''temperature in Bangalore'')
   \<and> fst (extract_place_name no_weather_env ''temperature in Bangalore'') = Some ''Bangalore''
   \<and> fst (get_weather_info no_weather_env ''Bangalore'') = None
   \<and> fst (agent_process_query no_weather_env ''temperature in Bangalore'')
       = ''I found Bangalore, but couldn't retrieve information. Please try again.''
   \<and> fst (agent_process_query no_weather_env ''temperature in Bangalore'')
       \<noteq> ''Could not retrieve weather information for Bangalore.''
   \<and> fst (get_tourist_attractions no_overpass_env (1297 / 100) (7759 / 100) 5) = []
   \<and> fst (offline_process_query no_overpass_env ''Bangalore'' False True)
       = ''In Bangalore these are the places you can go, - - - - -'' @ [newline]
         @ ''(No tourist attractions found in the database)''
   \<and> fst (offline_process_query no_geocoder_env ''Bangalore'' False True)
       = ''Could not retrieve tourist attractions for Bangalore.''"
  by code_simp

text \<open>
  Claim C5, as the code has it. When every rendering the text asks for is missing, the
  free-text orchestrator answers, for a verified place, with the one sentence
  \<open>I found <place>, but couldn't retrieve information. Please try again.\<close> The
  structured orchestrator answers with its generic sentence
  \<open>Could not retrieve information for <place>. Please try again.\<close> only when no facet
  is requested; when the requested renderings are all missing it answers with the
  failure sentence of each requested facet, the two joined by one space when both
  facets are requested.
\<close>

theorem total_failure_response:
  "(fst (extract_place_name e input) = Some p
      \<and> fst (fst (verify_place_exists e p True))
      \<and> (needs_weather (determine_intent input) \<longrightarrow> fst (get_weather_info e p) = None)
      \<and> (needs_places (determine_intent input) \<longrightarrow> fst (get_places_info e p 5) = None)
     \<longrightarrow> fst (agent_process_query e input)
           = ''I found '' @ p @ '', but couldn't retrieve information. Please try again.'')
   \<and> ((gw \<longrightarrow> fst (get_weather_info e p) = None)
      \<and> (gp \<longrightarrow> fst (get_places_info e p 5) = None)
     \<longrightarrow> fst (offline_process_query e p gw gp)
           = (if gw \<and> gp then
                ''Could not retrieve weather information for '' @ p @ ''.'' @ '' ''
                @ ''Could not retrieve tourist attractions for '' @ p @ ''.''
              else if gw then ''Could not retrieve weather information for '' @ p @ ''.''
              else if gp then ''Could not retrieve tourist attractions for '' @ p @ ''.''
              else ''Could not retrieve information for '' @ p @ ''. Please try again.''))"
proof -
  have ag: "fst (agent_process_query e input)
           = ''I found '' @ p @ '', but couldn't retrieve information. Please try again.''"
    if h: "fst (extract_place_name e input) = Some p"
          "fst (fst (verify_place_exists e p True))"
      and w: "needs_weather (determine_intent input) \<longrightarrow> fst (get_weather_info e p) = None"
      and pl: "needs_places (determine_intent input) \<longrightarrow> fst (get_places_info e p 5) = None"
  proof -
    have "(if needs_weather (determine_intent input) then fst (get_weather_info e p) else None)
            = None"
      using w by simp
    moreover have "(if needs_places (determine_intent input) then fst (get_places_info e p 5)
                    else None) = None"
      using pl by simp
    ultimately show ?thesis
      by (simp add: agent_response [OF h] Let_def truthy_None)
  qed
  have off: "fst (offline_process_query e p gw gp)
           = (if gw \<and> gp then
                ''Could not retrieve weather information for '' @ p @ ''.'' @ '' ''
                @ ''Could not retrieve tourist attractions for '' @ p @ ''.''
              else if gw then ''Could not retrieve weather information for '' @ p @ ''.''
              else if gp then ''Could not retrieve tourist attractions for '' @ p @ ''.''
              else ''Could not retrieve information for '' @ p @ ''. Please try again.'')"
    if w: "gw \<longrightarrow> fst (get_weather_info e p) = None"
      and pl: "gp \<longrightarrow> fst (get_places_info e p 5) = None"
    using w pl by (cases gw; cases gp) (simp_all add: offline_response Let_def truthy_None)
  show ?thesis
    using ag off by blast
qed

theorem total_failure_response_witness:
  "fst (extract_place_name coords_down_env ''weather and places in Bangalore'') = Some ''Bangalore''
   \<and> fst (fst (verify_place_exists coords_down_env ''Bangalore'' True))
   \<and> fst (get_weather_info coords_down_env ''Bangalore'') = None
   \<and> fst (get_places_info coords_down_env ''Bangalore'' 5) = None
   \<and> fst (agent_process_query coords_down_env ''weather and places in Bangalore'')
       = ''I found Bangalore, but couldn't retrieve information. Please try again.''
   \<and> fst (offline_process_query coords_down_env ''Bangalore'' True True)
       = ''Could not retrieve weather information for Bangalore. ''
         @ ''Could not retrieve tourist attractions for Bangalore.''"
proof -
  let ?input = "''weather and places in Bangalore''"
  have a: "fst (extract_place_name coords_down_env ?input) = Some ''Bangalore''"
    by code_simp
  have v: "fst (fst (verify_place_exists coords_down_env ''Bangalore'' True))"
    by code_simp
  have w: "fst (get_weather_info coords_down_env ''Bangalore'') = None"
    by code_simp
  have pl: "fst (get_places_info coords_down_env ''Bangalore'' 5) = None"
    by code_simp
  note m = total_failure_response [of coords_down_env ?input "''Bangalore''" True True]
  have ag: "fst (agent_process_query coords_down_env ?input)
       = ''I found Bangalore, but couldn't retrieve information. Please try again.''"
    using m a v w pl by simp
  have off: "fst (offline_process_query coords_down_env ''Bangalore'' True True)
       = ''Could not retrieve weather information for Bangalore. ''
         @ ''Could not retrieve tourist attractions for Bangalore.''"
    using m w pl by simp
  show ?thesis
    by (rule conjI [OF a conjI [OF v conjI [OF w conjI [OF pl conjI [OF ag off]]]]])
qed

theorem total_failure_response_counterexample:
  "fst (fst (verify_place_exists coords_down_env ''Bangalore'' True))
   \<and> fst (get_weather_info coords_down_env ''Bangalore'') = None
   \<and> fst (get_places_info coords_down_env ''Bangalore'' 5) = None
   \<and> fst (query_offline coords_down_env ''Bangalore'' True True)
       = Success (''Could not retrieve weather information for Bangalore. ''
                  @ ''Could not retrieve tourist attractions for Bangalore.'')
   \<and> fst (offline_process_query coords_down_env ''Bangalore'' True True)
       \<noteq> ''Could not retrieve information for Bangalore. Please try again.''"
  by code_simp

text \<open>
  Claim C6, as the code has it. In the free-text orchestrator and in the query handler
  of the web application, a call of the weather or of the places provider occurs only
  when strict verification of the place succeeds, and then the geocoder request of the
  verification precedes every such call; when verification fails no such call occurs
  at all. (The structured orchestrator itself verifies nothing: the handler does.)
\<close>

theorem facets_after_verification:
  "((\<exists>x \<in> set (snd (agent_process_query e input)). is_facet_call x)
      \<longrightarrow> (\<exists>p. fst (extract_place_name e input) = Some p
               \<and> verified_first e p (snd (agent_process_query e input))))
   \<and> ((\<exists>x \<in> set (snd (query_offline e place gw gp)). is_facet_call x)
      \<longrightarrow> verified_first e (strip place) (snd (query_offline e place gw gp)))
   \<and> (fst (extract_place_name e input) = Some q
        \<and> \<not> fst (fst (verify_place_exists e q True))
      \<longrightarrow> list_all (\<lambda>x. \<not> is_facet_call x) (snd (agent_process_query e input)))
   \<and> (\<not> fst (fst (verify_place_exists e (strip place) True))
      \<longrightarrow> list_all (\<lambda>x. \<not> is_facet_call x) (snd (query_offline e place gw gp)))"
proof -
  have a3: "list_all (\<lambda>x. \<not> is_facet_call x) (snd (agent_process_query e input))"
    if "fst (extract_place_name e input) = Some q"
       "\<not> fst (fst (verify_place_exists e q True))" for q
    using agent_trace_unverified [OF that] by simp
  have a1: "\<exists>p. fst (extract_place_name e input) = Some p
               \<and> verified_first e p (snd (agent_process_query e input))"
    if f: "\<exists>x \<in> set (snd (agent_process_query e input)). is_facet_call x"
  proof (cases "fst (extract_place_name e input)")
    case None
    then show ?thesis
      using f agent_trace_none [OF None] by simp
  next
    case (Some p)
    show ?thesis
    proof (cases "fst (fst (verify_place_exists e p True))")
      case True
      have "verified_first e p (snd (agent_process_query e input))"
        using True by (simp add: agent_trace [OF Some True] verified_first_def)
      then show ?thesis
        using Some by simp
    next
      case False
      then show ?thesis
        using f a3 [OF Some False] by (auto simp: list_all_iff)
    qed
  qed
  have qt: "snd (query_offline e place gw gp) =
              (if strip place = [] then []
               else if \<not> fst (fst (verify_place_exists e (strip place) True))
                    then [Geocode (strip place) True]
               else [Geocode (strip place) True]
                    @ snd (offline_process_query e (strip place) gw gp))"
    using verify_trace [of e "strip place" True]
    by (cases "verify_place_exists e (strip place) True")
       (auto simp: query_offline_def Let_def split: prod.splits)
  have q4: "list_all (\<lambda>x. \<not> is_facet_call x) (snd (query_offline e place gw gp))"
    if "\<not> fst (fst (verify_place_exists e (strip place) True))"
    using that by (simp add: qt)
  have q2: "verified_first e (strip place) (snd (query_offline e place gw gp))"
    if f: "\<exists>x \<in> set (snd (query_offline e place gw gp)). is_facet_call x"
  proof (cases "fst (fst (verify_place_exists e (strip place) True))")
    case True
    have ne: "strip place \<noteq> []"
      using f by (auto simp: qt)
    show ?thesis
      using True ne by (simp add: qt verified_first_def)
  next
    case False
    then show ?thesis
      using f q4 [OF False] by (auto simp: list_all_iff)
  qed
  show ?thesis
    using a1 q2 a3 q4 by blast
qed

theorem facets_after_verification_witness:
  "(\<exists>x \<in> set (snd (agent_process_query bangalore_env ''weather in Bangalore'')). is_facet_call x)
   \<and> (\<exists>x \<in> set (snd (query_offline bangalore_env ''Bangalore'' True True)). is_facet_call x)
   \<and> verified_first bangalore_env ''Bangalore''
        (snd (query_offline bangalore_env ''Bangalore'' True True))
   \<and> fst (extract_place_name smallville_env ''weather in Smallville'') = Some ''Smallville''
   \<and> \<not> fst (fst (verify_place_exists smallville_env ''Smallville'' True))
   \<and> list_all (\<lambda>x. \<not> is_facet_call x)
        (snd (agent_process_query smallville_env ''weather in Smallville''))
   \<and> list_all (\<lambda>x. \<not> is_facet_call x)
        (snd (query_offline smallville_env ''Smallville'' True True))
   \<and> (\<exists>p. fst (extract_place_name bangalore_env ''weather in Bangalore'') = Some p
          \<and> verified_first bangalore_env p
               (snd (agent_process_query bangalore_env ''weather in Bangalore'')))"
proof -
  have f1: "\<exists>x \<in> set (snd (agent_process_query bangalore_env ''weather in Bangalore'')).
              is_facet_call x"
    by code_simp
  have f2: "\<exists>x \<in> set (snd (query_offline bangalore_env ''Bangalore'' True True)).
              is_facet_call x"
    by code_simp
  have s: "strip ''Bangalore'' = ''Bangalore''" "strip ''Smallville'' = ''Smallville''"
    by code_simp+
  have e3: "fst (extract_place_name smallville_env ''weather in Smallville'') = Some ''Smallville''"
    by code_simp
  have v3: "\<not> fst (fst (verify_place_exists smallville_env ''Smallville'' True))"
    by code_simp
  note b = facets_after_verification
             [of bangalore_env "''weather in Bangalore''" "''Bangalore''" True True]
  note sm = facets_after_verification
             [of smallville_env "''weather in Smallville''" "''Smallville''" True True
                 "''Smallville''"]
  have r1: "\<exists>p. fst (extract_place_name bangalore_env ''weather in Bangalore'') = Some p
          \<and> verified_first bangalore_env p
               (snd (agent_process_query bangalore_env ''weather in Bangalore''))"
    using b f1 by blast
  have r2: "verified_first bangalore_env ''Bangalore''
        (snd (query_offline bangalore_env ''Bangalore'' True True))"
    using b f2 unfolding s by blast
  have r3: "list_all (\<lambda>x. \<not> is_facet_call x)
        (snd (agent_process_query smallville_env ''weather in Smallville''))"
    using sm e3 v3 by blast
  have r4: "list_all (\<lambda>x. \<not> is_facet_call x)
        (snd (query_offline smallville_env ''Smallville'' True True))"
    using sm v3 unfolding s by blast
  show ?thesis
    using f1 f2 r2 e3 v3 r3 r4 r1 by blast
qed

theorem facets_after_verification_counterexample:
  "\<not> fst (fst (verify_place_exists smallville_env ''Smallville'' True))
   \<and> snd (offline_process_query smallville_env ''Smallville'' True False)
       = [Geocode ''Smallville'' False, WeatherCall 39 (- 95)]
   \<and> is_facet_call (WeatherCall 39 (- 95))
   \<and> fst (offline_process_query smallville_env ''Smallville'' True False)
       = ''In Smallville it's currently 24'' @ degree_c @ '' with a chance of 10% to rain.''"
  by code_simp

section \<open>The place name in the renderings\<close>

lemma with_display_name_fields:
  "nominatim (with_display_name dn e) n a
     = map_option (map (\<lambda>r. r \<lparr> raw_display_name := dn r \<rparr>)) (nominatim e n a)"
  "open_meteo (with_display_name dn e) = open_meteo e"
  "overpass_api (with_display_name dn e) = overpass_api e"
  "chat_extract (with_display_name dn e) = chat_extract e"
  "chat_unknown_place (with_display_name dn e) = chat_unknown_place e"
  by (simp_all add: with_display_name_def)

lemma get_coordinates_display_name:
  "get_coordinates (with_display_name dn e) p = get_coordinates e p"
proof (cases "nominatim e p False")
  case None
  then show ?thesis
    by (simp add: get_coordinates_def with_display_name_fields)
next
  case (Some rs)
  then show ?thesis
    by (cases rs) (simp_all add: get_coordinates_def with_display_name_fields)
qed

lemma get_weather_display_name:
  "get_weather (with_display_name dn e) la lo = get_weather e la lo"
  by (simp add: get_weather_def with_display_name_fields)

lemma get_tourist_attractions_display_name:
  "get_tourist_attractions (with_display_name dn e) la lo l = get_tourist_attractions e la lo l"
  by (simp add: get_tourist_attractions_def with_display_name_fields)

lemma get_weather_info_display_name:
  "get_weather_info (with_display_name dn e) p = get_weather_info e p"
  by (simp add: get_weather_info_def get_coordinates_display_name get_weather_display_name
        cong: prod.case_cong option.case_cong)

lemma get_places_info_display_name:
  "get_places_info (with_display_name dn e) p l = get_places_info e p l"
  by (simp add: get_places_info_def get_coordinates_display_name
        get_tourist_attractions_display_name cong: prod.case_cong option.case_cong)

lemma offline_display_name:
  "offline_process_query (with_display_name dn e) p gw gp = offline_process_query e p gw gp"
  by (simp add: offline_process_query_def get_weather_info_display_name
        get_places_info_display_name)

lemma extract_display_name:
  "extract_place_name (with_display_name dn e) input = extract_place_name e input"
  by (simp add: extract_place_name_def with_display_name_fields)

lemma verify_display_name:
  "fst (fst (verify_place_exists (with_display_name dn e) p s))
     = fst (fst (verify_place_exists e p s))"
proof (cases "nominatim e p True")
  case None
  then show ?thesis
    by (simp add: verify_place_exists_def get_place_details_def with_display_name_fields)
next
  case (Some rs)
  then show ?thesis
    by (cases rs)
       (auto simp: verify_place_exists_def get_place_details_def with_display_name_fields
          Let_def)
qed

lemma agent_by_verdict:
  "agent_process_query e user_input =
     (case extract_place_name e user_input of
        (None, t0) \<Rightarrow>
          (''I couldn't identify a place name in your message. Please specify a location.'',
           t0)
      | (Some place_name, t0) \<Rightarrow>
          if \<not> fst (fst (verify_place_exists e place_name True)) then
            ((case chat_unknown_place e place_name of
                Some content \<Rightarrow> strip content
              | None \<Rightarrow> ''I don't know this place exists. Could you please check ''
                  @ ''the spelling or provide more details about the location?''),
             t0 @ [Geocode place_name True] @ [ChatCall place_name])
          else
            (let it = determine_intent user_input;
                 (weather_info, t2) =
                   (if needs_weather it then get_weather_info e place_name
                    else (None, []));
                 (places_info, t3) =
                   (if needs_places it then get_places_info e place_name 5
                    else (None, []));
                 parts1 = (if truthy weather_info then [the weather_info] else []);
                 parts2 =
                   (if truthy places_info
                    then parts1 @ [places_piece (truthy weather_info) (the places_info)]
                    else parts1)
             in (if parts2 = []
                 then ''I found '' @ place_name
                        @ '', but couldn't retrieve information. Please try again.''
                 else join '' '' parts2,
                 t0 @ [Geocode place_name True] @ t2 @ t3)))"
proof (cases "extract_place_name e user_input")
  case (Pair a t0)
  show ?thesis
  proof (cases a)
    case None
    then show ?thesis
      using Pair by (simp add: agent_process_query_def)
  next
    case (Some p)
    obtain ex d m t1 where v: "verify_place_exists e p True = ((ex, d, m), t1)"
      by (metis prod.exhaust)
    have t1: "t1 = [Geocode p True]"
      using verify_trace [of e p True] v by simp
    show ?thesis
      using Pair Some v t1 by (simp add: agent_process_query_def)
  qed
qed

lemma agent_display_name:
  "agent_process_query (with_display_name dn e) input = agent_process_query e input"
  by (simp add: agent_by_verdict extract_display_name verify_display_name
        get_weather_info_display_name get_places_info_display_name with_display_name_fields
        Let_def cong: prod.case_cong option.case_cong if_cong)

text \<open>
  Claim C10. The weather rendering, the places rendering and the answers of both
  orchestrators are the same whatever display names the geocoder resolves: they do not
  depend on them. A weather sentence begins \<open>In <place> it's currently\<close> and a places
  listing begins with the line \<open>In <place> these are the places you can go, - - - - -\<close>,
  the place being the name the caller passed. The display name is what the message of
  a successful verification carries, \<open>Found <display name>\<close>.
\<close>

theorem renderings_name_the_query:
  "get_weather_info (with_display_name dn e) p = get_weather_info e p
   \<and> get_places_info (with_display_name dn e) p l = get_places_info e p l
   \<and> offline_process_query (with_display_name dn e) p gw gp = offline_process_query e p gw gp
   \<and> agent_process_query (with_display_name dn e) input = agent_process_query e input
   \<and> (fst (get_weather_info e p) = Some w
      \<longrightarrow> starts_with (''In '' @ p @ '' it's currently '') w)
   \<and> (fst (get_places_info e p l) = Some pl
      \<longrightarrow> starts_with (''In '' @ p @ '' these are the places you can go, - - - - -''
                         @ [newline]) pl)
   \<and> (fst (verify_place_exists e p strict) = (True, Some d, m)
      \<longrightarrow> m = ''Found '' @ pd_display_name d)"
proof -
  have w: "starts_with (''In '' @ p @ '' it's currently '') w"
    if "fst (get_weather_info e p) = Some w"
    using weather_info_form [OF that]
    unfolding starts_with_iff weather_sentence_def by auto
  have pl: "starts_with (''In '' @ p @ '' these are the places you can go, - - - - -''
                         @ [newline]) pl"
    if "fst (get_places_info e p l) = Some pl"
    using places_info_form [OF that]
    unfolding starts_with_iff places_lead_in_def by auto
  have v: "m = ''Found '' @ pd_display_name d"
    if "fst (verify_place_exists e p strict) = (True, Some d, m)"
    using that
    by (auto simp: verify_place_exists_def Let_def split: prod.splits option.splits if_splits)
  show ?thesis
    using w pl v get_weather_info_display_name [of dn e p]
      get_places_info_display_name [of dn e p l] offline_display_name [of dn e p gw gp]
      agent_display_name [of dn e input]
    by blast
qed

theorem renderings_name_the_query_witness:
  "fst (verify_place_exists (with_display_name (\<lambda>r. Some ''Bengaluru, Karnataka, India'')
                               bangalore_env) ''Bangalore'' True)
     = (True, Some (bangalore_details \<lparr> pd_display_name := ''Bengaluru, Karnataka, India'' \<rparr>),
        ''Found Bengaluru, Karnataka, India'')
   \<and> fst (get_weather_info (with_display_name (\<lambda>r. Some ''Bengaluru, Karnataka, India'')
                               bangalore_env) ''Bangalore'')
       = Some (''In Bangalore it's currently 24'' @ degree_c @ '' with a chance of 10% to rain.'')
   \<and> starts_with ''In Bangalore it's currently ''
        (''In Bangalore it's currently 24'' @ degree_c @ '' with a chance of 10% to rain.'')
   \<and> fst (get_places_info (with_display_name (\<lambda>r. Some ''Bengaluru, Karnataka, India'')
                              bangalore_env) ''Bangalore'' 5)
       = Some (''In Bangalore these are the places you can go, - - - - -'' @ [newline]
               @ ''Lalbagh'' @ [newline] @ ''Cubbon Park'')
   \<and> starts_with (''In Bangalore these are the places you can go, - - - - -'' @ [newline])
        (''In Bangalore these are the places you can go, - - - - -'' @ [newline]
         @ ''Lalbagh'' @ [newline] @ ''Cubbon Park'')"
proof -
  let ?dn = "\<lambda>r :: geo_raw. Some ''Bengaluru, Karnataka, India''"
  let ?e = "with_display_name ?dn bangalore_env"
  let ?w = "''In Bangalore it's currently 24'' @ degree_c @ '' with a chance of 10% to rain.''"
  let ?pl = "''In Bangalore these are the places you can go, - - - - -'' @ [newline]
               @ ''Lalbagh'' @ [newline] @ ''Cubbon Park''"
  let ?d = "bangalore_details \<lparr> pd_display_name := ''Bengaluru, Karnataka, India'' \<rparr>"
  have w: "fst (get_weather_info bangalore_env ''Bangalore'') = Some ?w"
    by code_simp
  have pl: "fst (get_places_info bangalore_env ''Bangalore'' 5) = Some ?pl"
    by code_simp
  have v: "fst (verify_place_exists ?e ''Bangalore'' True)
             = (True, Some ?d, ''Found '' @ pd_display_name ?d)"
    by code_simp
  note m1 = renderings_name_the_query
              [of ?dn bangalore_env "''Bangalore''" 5 True True "[]" ?w ?pl]
  note m2 = renderings_name_the_query
              [of ?dn ?e "''Bangalore''" 5 True True "[]" ?w ?pl True ?d
                  "''Found '' @ pd_display_name ?d"]
  have r1: "fst (get_weather_info ?e ''Bangalore'') = Some ?w"
    using m1 w by simp
  have r2: "starts_with (''In '' @ ''Bangalore'' @ '' it's currently '') ?w"
    using m1 w by blast
  have r3: "fst (get_places_info ?e ''Bangalore'' 5) = Some ?pl"
    using m1 pl by simp
  have r4: "starts_with (''In '' @ ''Bangalore'' @ '' these are the places you can go, - - - - -''
                         @ [newline]) ?pl"
    using m1 pl by blast
  have r5: "''Found '' @ pd_display_name ?d = ''Found '' @ pd_display_name ?d"
    using m2 v by blast
  have v': "fst (verify_place_exists ?e ''Bangalore'' True)
             = (True, Some ?d, ''Found Bengaluru, Karnataka, India'')"
    using v r5 by (simp add: bangalore_details_def)
  show ?thesis
    using v' r1 r2 r3 r4 by simp
qed

end
